theory Spec2Isabelle
  imports Main
begin

section \<open>The floating IP module of the cloudscale.ch collection\<close>

text \<open>
  A shallow embedding of \<^verbatim>\<open>plugins/modules/floating_ip.py\<close>: the class
  \<^verbatim>\<open>AnsibleCloudscaleFloatingIP\<close> and the function \<^verbatim>\<open>main\<close>.

  The module reads its parameters, fetches the floating IP when an address was given,
  and then either reports what would change (check mode) or runs one of three methods:
  \<^verbatim>\<open>request_floating_ip\<close>, \<^verbatim>\<open>release_floating_ip\<close>, \<^verbatim>\<open>update_floating_ip\<close>.
  The attribute \<^verbatim>\<open>self.info\<close>, which the methods overwrite, is passed and returned
  explicitly. Every function returns, next to its result, the list of requests it has
  handed to the HTTP layer, in order; an exception or a call of \<^verbatim>\<open>fail_json\<close> is an
  \<open>Inl\<close> result, and the requests made before it are still listed.
\<close>

subsection \<open>Values\<close>

text \<open>
  What the JSON parser returns and what the module puts into its dictionaries. A nested
  object keeps its members as an association list that is read with \<open>map_of\<close>; the
  dictionaries the module itself reads and writes by key are maps.
\<close>

datatype json =
    JNull
  | JBool bool
  | JInt int
  | JStr string
  | JList "json list"
  | JObj "(string \<times> json) list"

type_synonym dict = "string \<rightharpoonup> json"

text \<open>
  The ways the module can stop without a result: \<^verbatim>\<open>fail_json\<close> of the module itself
  (with its message), \<^verbatim>\<open>fail_json\<close> of the HTTP layer (\<open>ApiFailure\<close>), and the Python
  exceptions that the code can raise and does not catch.
\<close>

datatype error =
    FailJson string
  | ApiFailure string
  | KeyError string
  | TypeError
  | ValueError

subsection \<open>The standard library's ip_network\<close>

text \<open>
  The module computes the identifier of a floating IP as
  \<^verbatim>\<open>str(ip_network(resp['network']).network_address)\<close>. This subsection translates
  that computation from the module \<^verbatim>\<open>ipaddress\<close> of CPython 3.11, function by function
  and under the library's names: \<^verbatim>\<open>ip_network\<close> tries \<^verbatim>\<open>IPv4Network\<close>, then
  \<^verbatim>\<open>IPv6Network\<close>, both with \<^verbatim>\<open>strict=True\<close>. The library's three exceptions are the
  values of \<open>ip_error\<close>; the one for set host bits is a plain \<^verbatim>\<open>ValueError\<close>, which
  \<^verbatim>\<open>ip_network\<close> does not catch. Addresses are natural numbers, \<^verbatim>\<open>x >> k\<close> is
  \<open>drop_bit k x\<close> and \<^verbatim>\<open>x << k\<close> is \<open>push_bit k x\<close>.
\<close>

unbundle bit_operations_syntax

datatype ip_error = AddressValueError | NetmaskValueError | HostBitsSet

text \<open>\<^verbatim>\<open>s.split(sep)\<close> and \<^verbatim>\<open>sep.join(ws)\<close> for a separator of one character.\<close>

fun str_split :: "char \<Rightarrow> string \<Rightarrow> string list" where
  "str_split sep [] = [Nil]"
| "str_split sep (c # cs) =
     (if c = sep then [] # str_split sep cs
      else (case str_split sep cs of [] \<Rightarrow> [c] # Nil | w # ws \<Rightarrow> (c # w) # ws))"

definition str_join :: "char \<Rightarrow> string list \<Rightarrow> string" where
  "str_join sep ws = (case ws of [] \<Rightarrow> [] | w # ws' \<Rightarrow> w @ concat (map ((#) sep) ws'))"

text \<open>
  The value of a decimal and of a hexadecimal digit, \<^verbatim>\<open>s.isascii() and s.isdigit()\<close>,
  \<^verbatim>\<open>int(s, base)\<close> on a text of digits, the digit of a value below sixteen,
  \<^verbatim>\<open>str(n)\<close> for a byte and \<^verbatim>\<open>'%x' % n\<close> for sixteen bits.
\<close>

definition digit_value :: "char \<Rightarrow> nat option" where
  "digit_value c =
     map_of
       [(CHR ''0'', 0), (CHR ''1'', 1), (CHR ''2'', 2), (CHR ''3'', 3), (CHR ''4'', 4),
        (CHR ''5'', 5), (CHR ''6'', 6), (CHR ''7'', 7), (CHR ''8'', 8), (CHR ''9'', 9)] c"

definition hex_value :: "char \<Rightarrow> nat option" where
  "hex_value c =
     map_of
       [(CHR ''0'', 0), (CHR ''1'', 1), (CHR ''2'', 2), (CHR ''3'', 3), (CHR ''4'', 4),
        (CHR ''5'', 5), (CHR ''6'', 6), (CHR ''7'', 7), (CHR ''8'', 8), (CHR ''9'', 9),
        (CHR ''a'', 10), (CHR ''b'', 11), (CHR ''c'', 12), (CHR ''d'', 13), (CHR ''e'', 14),
        (CHR ''f'', 15), (CHR ''A'', 10), (CHR ''B'', 11), (CHR ''C'', 12), (CHR ''D'', 13),
        (CHR ''E'', 14), (CHR ''F'', 15)] c"

definition isdigit :: "string \<Rightarrow> bool" where
  "isdigit s = (s \<noteq> [] \<and> (\<forall>c \<in> set s. digit_value c \<noteq> None))"

definition int_of_str :: "nat \<Rightarrow> (char \<Rightarrow> nat option) \<Rightarrow> string \<Rightarrow> nat" where
  "int_of_str base val s = foldl (\<lambda>acc c. base * acc + the (val c)) 0 s"

definition digit_char :: "nat \<Rightarrow> char" where
  "digit_char k = ''0123456789abcdef'' ! k"

definition str_byte :: "nat \<Rightarrow> string" where
  "str_byte n =
     (if n < 10 then [digit_char n]
      else if n < 100 then [digit_char (n div 10), digit_char (n mod 10)]
      else [digit_char (n div 100), digit_char (n div 10 mod 10), digit_char (n mod 10)])"

definition percent_x :: "nat \<Rightarrow> string" where
  "percent_x n =
     (let ds = dropWhile (\<lambda>d. d = 0) [n div 4096 mod 16, n div 256 mod 16, n div 16 mod 16, n mod 16]
      in map digit_char (if ds = [] then [0] else ds))"

text \<open>
  The functions shared by both address families. \<open>trailing_zero_bits bits n\<close> is
  \<^verbatim>\<open>min(bits, (~n & (n - 1)).bit_length())\<close> for a positive \<^verbatim>\<open>n\<close>: the number of zero
  bits at the right end, at most \<^verbatim>\<open>bits\<close>.
\<close>

definition split_optional_netmask :: "string \<Rightarrow> ip_error + string list" where
  "split_optional_netmask address =
     (let addr = str_split CHR ''/'' address
      in if length addr > 2 then Inl AddressValueError else Inr addr)"

definition ip_int_from_prefix :: "nat \<Rightarrow> nat \<Rightarrow> nat" where
  "ip_int_from_prefix max_prefixlen prefixlen =
     (2 ^ max_prefixlen - 1) XOR drop_bit prefixlen (2 ^ max_prefixlen - 1)"

fun trailing_zero_bits :: "nat \<Rightarrow> nat \<Rightarrow> nat" where
  "trailing_zero_bits 0 n = 0"
| "trailing_zero_bits (Suc k) n =
     (if n \<noteq> 0 \<and> even n then Suc (trailing_zero_bits k (n div 2)) else 0)"

definition count_righthand_zero_bits :: "nat \<Rightarrow> nat \<Rightarrow> nat" where
  "count_righthand_zero_bits number bits =
     (if number = 0 then bits else trailing_zero_bits bits number)"

definition prefix_from_ip_int :: "nat \<Rightarrow> nat \<Rightarrow> nat option" where
  "prefix_from_ip_int max_prefixlen ip_int =
     (let trailing_zeroes = count_righthand_zero_bits ip_int max_prefixlen;
          prefixlen = max_prefixlen - trailing_zeroes;
          leading_ones = drop_bit trailing_zeroes ip_int;
          all_ones = push_bit prefixlen 1 - 1
      in if leading_ones \<noteq> all_ones then None else Some prefixlen)"

definition prefix_from_prefix_string :: "nat \<Rightarrow> string \<Rightarrow> ip_error + nat" where
  "prefix_from_prefix_string max_prefixlen prefixlen_str =
     (if \<not> isdigit prefixlen_str then Inl NetmaskValueError
      else
        let prefixlen = int_of_str 10 digit_value prefixlen_str
        in if \<not> prefixlen \<le> max_prefixlen then Inl NetmaskValueError else Inr prefixlen)"

text \<open>
  IPv4: \<^verbatim>\<open>_parse_octet\<close>, \<^verbatim>\<open>_ip_int_from_string\<close>, \<^verbatim>\<open>_string_from_ip_int\<close>, and a
  prefix given as a netmask or as a hostmask.
\<close>

definition parse_octet :: "string \<Rightarrow> nat option" where
  "parse_octet octet_str =
     (if octet_str = [] then None
      else if \<not> isdigit octet_str then None
      else if length octet_str > 3 then None
      else if octet_str \<noteq> ''0'' \<and> hd octet_str = CHR ''0'' then None
      else
        let octet_int = int_of_str 10 digit_value octet_str
        in if octet_int > 255 then None else Some octet_int)"

definition v4_ip_int_from_string :: "string \<Rightarrow> ip_error + nat" where
  "v4_ip_int_from_string ip_str =
     (if ip_str = [] then Inl AddressValueError
      else
        let octets = str_split CHR ''.'' ip_str
        in if length octets \<noteq> 4 then Inl AddressValueError
           else if \<exists>octet \<in> set octets. parse_octet octet = None then Inl AddressValueError
           else Inr (foldl (\<lambda>acc octet. 256 * acc + the (parse_octet octet)) 0 octets))"

definition v4_string_from_ip_int :: "nat \<Rightarrow> string" where
  "v4_string_from_ip_int ip_int =
     str_join CHR ''.''
       (map str_byte
          [ip_int div 2 ^ 24 mod 256, ip_int div 2 ^ 16 mod 256, ip_int div 2 ^ 8 mod 256,
           ip_int mod 256])"

definition prefix_from_ip_string :: "string \<Rightarrow> ip_error + nat" where
  "prefix_from_ip_string ip_str =
     (case v4_ip_int_from_string ip_str of
        Inl err \<Rightarrow> Inl NetmaskValueError
      | Inr ip_int \<Rightarrow>
          (case prefix_from_ip_int 32 ip_int of
             Some prefixlen \<Rightarrow> Inr prefixlen
           | None \<Rightarrow>
               (case prefix_from_ip_int 32 (ip_int XOR (2 ^ 32 - 1)) of
                  Some prefixlen \<Rightarrow> Inr prefixlen
                | None \<Rightarrow> Inl NetmaskValueError)))"

text \<open>The argument of a constructor: an integer, or the text of any other value.\<close>

datatype address = IntAddress int | StrAddress string

definition split_addr_prefix :: "address \<Rightarrow> ip_error + address \<times> string option" where
  "split_addr_prefix address =
     (case address of
        IntAddress i \<Rightarrow> Inr (IntAddress i, None)
      | StrAddress s \<Rightarrow>
          (case split_optional_netmask s of
             Inl err \<Rightarrow> Inl err
           | Inr parts \<Rightarrow>
               if length parts > 1 then Inr (StrAddress (parts ! 0), Some (parts ! 1))
               else Inr (StrAddress (parts ! 0), None)))"

definition v4_make_netmask :: "string option \<Rightarrow> ip_error + nat" where
  "v4_make_netmask arg =
     (case arg of
        None \<Rightarrow> Inr 32
      | Some s \<Rightarrow>
          (case prefix_from_prefix_string 32 s of
             Inr prefixlen \<Rightarrow> Inr prefixlen
           | Inl err \<Rightarrow> prefix_from_ip_string s))"

definition IPv4Address :: "address \<Rightarrow> ip_error + nat" where
  "IPv4Address address =
     (case address of
        IntAddress i \<Rightarrow>
          if i < 0 then Inl AddressValueError
          else if i > 2 ^ 32 - 1 then Inl AddressValueError
          else Inr (nat i)
      | StrAddress addr_str \<Rightarrow>
          if CHR ''/'' \<in> set addr_str then Inl AddressValueError
          else v4_ip_int_from_string addr_str)"

definition IPv4Network :: "address \<Rightarrow> ip_error + nat" where
  "IPv4Network address =
     (case split_addr_prefix address of
        Inl err \<Rightarrow> Inl err
      | Inr (addr, mask_arg) \<Rightarrow>
          (case IPv4Address addr of
             Inl err \<Rightarrow> Inl err
           | Inr packed \<Rightarrow>
               (case v4_make_netmask mask_arg of
                  Inl err \<Rightarrow> Inl err
                | Inr prefixlen \<Rightarrow>
                    if packed AND ip_int_from_prefix 32 prefixlen \<noteq> packed
                    then Inl HostBitsSet
                    else Inr packed)))"

text \<open>
  IPv6: \<^verbatim>\<open>_parse_hextet\<close>; \<^verbatim>\<open>_ip_int_from_string\<close>, where \<open>empty_indices\<close> finds the
  empty parts strictly between the first and the last one; \<^verbatim>\<open>_compress_hextets\<close>, whose
  loop is \<open>compress_scan\<close>; and the scope identifier.
\<close>

definition parse_hextet :: "string \<Rightarrow> nat option" where
  "parse_hextet hextet_str =
     (if \<exists>c \<in> set hextet_str. hex_value c = None then None
      else if length hextet_str > 4 then None
      else if hextet_str = [] then None
      else Some (int_of_str 16 hex_value hextet_str))"

fun empty_indices :: "nat \<Rightarrow> string list \<Rightarrow> nat list" where
  "empty_indices i [] = []"
| "empty_indices i (w # ws) =
     (if w = [] then i # empty_indices (Suc i) ws else empty_indices (Suc i) ws)"

definition v6_ip_int_from_string :: "string \<Rightarrow> ip_error + nat" where
  "v6_ip_int_from_string ip_str =
     (if ip_str = [] then Inl AddressValueError
      else
        let parts0 = str_split CHR '':'' ip_str in
        if length parts0 < 3 then Inl AddressValueError
        else
          (case (if CHR ''.'' \<in> set (last parts0)
                 then (case IPv4Address (StrAddress (last parts0)) of
                         Inl err \<Rightarrow> Inl AddressValueError
                       | Inr ipv4_int \<Rightarrow>
                           Inr (butlast parts0 @
                                [percent_x (drop_bit 16 ipv4_int AND 65535),
                                 percent_x (ipv4_int AND 65535)]))
                 else Inr parts0) of
             Inl err \<Rightarrow> Inl err
           | Inr parts \<Rightarrow>
               if length parts > 9 then Inl AddressValueError
               else
                 let skips = empty_indices 1 (butlast (tl parts)) in
                 if length skips > 1 then Inl AddressValueError
                 else
                   (case (case skips of
                            skip_index # _ \<Rightarrow>
                              let parts_hi = skip_index;
                                  parts_lo = length parts - skip_index - 1 in
                              if hd parts = [] \<and> parts_hi - 1 \<noteq> 0 then Inl AddressValueError
                              else
                                let parts_hi = (if hd parts = [] then parts_hi - 1 else parts_hi) in
                                if last parts = [] \<and> parts_lo - 1 \<noteq> 0 then Inl AddressValueError
                                else
                                  let parts_lo = (if last parts = [] then parts_lo - 1 else parts_lo) in
                                  if parts_hi + parts_lo > 7 then Inl AddressValueError
                                  else Inr (parts_hi, parts_lo, 8 - (parts_hi + parts_lo))
                          | [] \<Rightarrow>
                              if length parts \<noteq> 8 then Inl AddressValueError
                              else if hd parts = [] then Inl AddressValueError
                              else if last parts = [] then Inl AddressValueError
                              else Inr (length parts, 0, 0)) of
                      Inl err \<Rightarrow> Inl err
                    | Inr (parts_hi, parts_lo, parts_skipped) \<Rightarrow>
                        let hi = take parts_hi parts;
                            lo = drop (length parts - parts_lo) parts in
                        if \<exists>h \<in> set (hi @ lo). parse_hextet h = None then Inl AddressValueError
                        else
                          let shift = (\<lambda>acc h. push_bit 16 acc OR the (parse_hextet h))
                          in Inr (foldl shift (push_bit (16 * parts_skipped) (foldl shift 0 hi)) lo))))"

fun compress_scan ::
  "int \<Rightarrow> string list \<Rightarrow> int \<times> nat \<times> int \<times> nat \<Rightarrow> int \<times> nat \<times> int \<times> nat" where
  "compress_scan index [] st = st"
| "compress_scan index (hextet # hextets)
     (best_doublecolon_start, best_doublecolon_len, doublecolon_start, doublecolon_len) =
     (if hextet = ''0'' then
        let doublecolon_len = doublecolon_len + 1;
            doublecolon_start = (if doublecolon_start = - 1 then index else doublecolon_start)
        in if doublecolon_len > best_doublecolon_len
           then compress_scan (index + 1) hextets
                  (doublecolon_start, doublecolon_len, doublecolon_start, doublecolon_len)
           else compress_scan (index + 1) hextets
                  (best_doublecolon_start, best_doublecolon_len, doublecolon_start, doublecolon_len)
      else compress_scan (index + 1) hextets
             (best_doublecolon_start, best_doublecolon_len, - 1, 0))"

definition compress_hextets :: "string list \<Rightarrow> string list" where
  "compress_hextets hextets =
     (case compress_scan 0 hextets (- 1, 0, - 1, 0) of
        (best_doublecolon_start, best_doublecolon_len, _, _) \<Rightarrow>
          if best_doublecolon_len > 1 then
            let best_doublecolon_end = nat best_doublecolon_start + best_doublecolon_len;
                hextets1 = (if best_doublecolon_end = length hextets then hextets @ [Nil] else hextets);
                hextets2 = take (nat best_doublecolon_start) hextets1 @ [Nil] @
                           drop best_doublecolon_end hextets1
            in if best_doublecolon_start = 0 then [] # hextets2 else hextets2
          else hextets)"

definition v6_string_from_ip_int :: "nat \<Rightarrow> string" where
  "v6_string_from_ip_int ip_int =
     str_join CHR '':''
       (compress_hextets
          (map (\<lambda>k. percent_x (ip_int div 2 ^ (16 * k) mod 65536)) [7, 6, 5, 4, 3, 2, 1, 0]))"

definition split_scope_id :: "string \<Rightarrow> ip_error + string \<times> string option" where
  "split_scope_id ip_str =
     (let addr = takeWhile (\<lambda>c. c \<noteq> CHR ''%'') ip_str;
          rest = dropWhile (\<lambda>c. c \<noteq> CHR ''%'') ip_str
      in if rest = [] then Inr (addr, None)
         else if tl rest = [] \<or> CHR ''%'' \<in> set (tl rest) then Inl AddressValueError
         else Inr (addr, Some (tl rest)))"

definition IPv6Address :: "address \<Rightarrow> ip_error + nat \<times> string option" where
  "IPv6Address address =
     (case address of
        IntAddress i \<Rightarrow>
          if i < 0 then Inl AddressValueError
          else if i > 2 ^ 128 - 1 then Inl AddressValueError
          else Inr (nat i, None)
      | StrAddress addr_str \<Rightarrow>
          if CHR ''/'' \<in> set addr_str then Inl AddressValueError
          else
            (case split_scope_id addr_str of
               Inl err \<Rightarrow> Inl err
             | Inr (addr, scope_id) \<Rightarrow>
                 (case v6_ip_int_from_string addr of
                    Inl err \<Rightarrow> Inl err
                  | Inr ip \<Rightarrow> Inr (ip, scope_id))))"

definition v6_make_netmask :: "string option \<Rightarrow> ip_error + nat" where
  "v6_make_netmask arg =
     (case arg of None \<Rightarrow> Inr 128 | Some s \<Rightarrow> prefix_from_prefix_string 128 s)"

definition IPv6Network :: "address \<Rightarrow> ip_error + nat \<times> string option" where
  "IPv6Network address =
     (case split_addr_prefix address of
        Inl err \<Rightarrow> Inl err
      | Inr (addr, mask_arg) \<Rightarrow>
          (case IPv6Address addr of
             Inl err \<Rightarrow> Inl err
           | Inr (packed, scope_id) \<Rightarrow>
               (case v6_make_netmask mask_arg of
                  Inl err \<Rightarrow> Inl err
                | Inr prefixlen \<Rightarrow>
                    if packed AND ip_int_from_prefix 128 prefixlen \<noteq> packed
                    then Inl HostBitsSet
                    else Inr (packed, scope_id))))"

definition v6_str :: "nat \<times> string option \<Rightarrow> string" where
  "v6_str a =
     (case snd a of
        None \<Rightarrow> v6_string_from_ip_int (fst a)
      | Some scope_id \<Rightarrow> v6_string_from_ip_int (fst a) @ ''%'' @ scope_id)"

text \<open>
  \<^verbatim>\<open>str(ip_network(address).network_address)\<close>, or \<open>None\<close> when \<^verbatim>\<open>ip_network\<close>
  raises \<^verbatim>\<open>ValueError\<close>.
\<close>

definition network_address_of :: "address \<Rightarrow> string option" where
  "network_address_of address =
     (case IPv4Network address of
        Inr packed \<Rightarrow> Some (v4_string_from_ip_int packed)
      | Inl HostBitsSet \<Rightarrow> None
      | Inl _ \<Rightarrow>
          (case IPv6Network address of
             Inr a \<Rightarrow> Some (v6_str a)
           | Inl _ \<Rightarrow> None))"

text \<open>
  The same on a JSON value. An integer, and a truth value as the integer it is, is an
  address by itself; a text is parsed; \<^verbatim>\<open>None\<close>, a list and an object are parsed
  as their text, which starts with \<^verbatim>\<open>N\<close>, \<^verbatim>\<open>[\<close> or \<^verbatim>\<open>{\<close> and is no address.
\<close>

definition py_ip_network :: "json \<Rightarrow> string option" where
  "py_ip_network v =
     (case v of
        JInt i \<Rightarrow> network_address_of (IntAddress i)
      | JBool b \<Rightarrow> network_address_of (IntAddress (if b then 1 else 0))
      | JStr s \<Rightarrow> network_address_of (StrAddress s)
      | _ \<Rightarrow> None)"

subsection \<open>Parameters\<close>

text \<open>
  \<^verbatim>\<open>module.params\<close> after the argument specification of \<^verbatim>\<open>main\<close> has been applied.
  \<^verbatim>\<open>state\<close> has the choices \<^verbatim>\<open>present\<close> and \<^verbatim>\<open>absent\<close> (default \<^verbatim>\<open>present\<close>), so it
  is one of two values; an option that was not given is \<^verbatim>\<open>None\<close>.
\<close>

datatype lifecycle = Present | Absent

fun state_str :: "lifecycle \<Rightarrow> string" where
  "state_str Present = ''present''"
| "state_str Absent = ''absent''"

record params =
  state :: lifecycle
  ip :: "string option"
  ip_version :: "int option"
  server :: "string option"
  type :: string
  region :: "string option"
  prefix_length :: "int option"
  reverse_ptr :: "string option"
  tags :: "(string \<times> json) list option"

text \<open>A parameter as the JSON value that goes into a request body.\<close>

definition jstr :: "string option \<Rightarrow> json" where
  "jstr v = (case v of None \<Rightarrow> JNull | Some s \<Rightarrow> JStr s)"

definition jint :: "int option \<Rightarrow> json" where
  "jint v = (case v of None \<Rightarrow> JNull | Some i \<Rightarrow> JInt i)"

definition jdict :: "(string \<times> json) list option \<Rightarrow> json" where
  "jdict v = (case v of None \<Rightarrow> JNull | Some kv \<Rightarrow> JObj kv)"

text \<open>Python's truth value of a string parameter: \<^verbatim>\<open>None\<close> and \<^verbatim>\<open>''\<close> are false.\<close>

definition truthy :: "string option \<Rightarrow> bool" where
  "truthy v = (case v of None \<Rightarrow> False | Some s \<Rightarrow> s \<noteq> [])"

text \<open>\<^verbatim>\<open>'%s' % v\<close> for a string parameter: \<^verbatim>\<open>None\<close> is printed as \<^verbatim>\<open>None\<close>.\<close>

definition percent_s :: "string option \<Rightarrow> string" where
  "percent_s v = (case v of None \<Rightarrow> ''None'' | Some s \<Rightarrow> s)"

subsection \<open>The collaborators\<close>

text \<open>
  The HTTP layer (\<^verbatim>\<open>_get\<close>, \<^verbatim>\<open>_post\<close>, \<^verbatim>\<open>_delete\<close> of \<^verbatim>\<open>AnsibleCloudscaleBase\<close>) and
  the standard library's \<^verbatim>\<open>ip_network\<close> are not part of the module; the methods take
  them from an environment. For the library function the environment of a real run
  holds \<open>py_ip_network\<close>.
  \<^item> \<open>api_get path\<close> is the parsed body, \<^verbatim>\<open>None\<close> when there is none, or a failure message;
  \<^item> \<open>api_post path data\<close> likewise;
  \<^item> \<open>api_delete path\<close> returns nothing the module reads;
  \<^item> \<open>ip_network v\<close> is \<^verbatim>\<open>str(ip_network(v).network_address)\<close>, and \<open>None\<close> when
    \<^verbatim>\<open>ip_network(v)\<close> raises \<^verbatim>\<open>ValueError\<close>;
  \<^item> \<open>has_ipaddress\<close> is the flag \<^verbatim>\<open>HAS_IPADDRESS\<close> set by the import.
\<close>

record env =
  has_ipaddress :: bool
  ip_network :: "json \<Rightarrow> string option"
  api_get :: "string \<Rightarrow> string + dict option"
  api_post :: "string \<Rightarrow> dict \<Rightarrow> string + dict option"
  api_delete :: "string \<Rightarrow> string + unit"

datatype api_call =
    GET string
  | POST string dict
  | DELETE string

type_synonym 'a run = "(error + 'a) \<times> api_call list"

subsection \<open>The class AnsibleCloudscaleFloatingIP\<close>

text \<open>
  \<^verbatim>\<open>_resp2info\<close>: marks the response as present, adds the address of its network, and
  replaces the server reference by its UUID. Subscripting \<^verbatim>\<open>None\<close> raises
  \<^verbatim>\<open>TypeError\<close>, a missing key raises \<^verbatim>\<open>KeyError\<close>, and \<^verbatim>\<open>ip_network\<close> raises
  \<^verbatim>\<open>ValueError\<close>.
\<close>

definition resp2info :: "(json \<Rightarrow> string option) \<Rightarrow> dict option \<Rightarrow> error + dict" where
  "resp2info ipn resp =
     (case resp of
        None \<Rightarrow> Inl TypeError
      | Some r0 \<Rightarrow>
          let r1 = r0(''state'' \<mapsto> JStr ''present'') in
          (case r1 ''network'' of
             None \<Rightarrow> Inl (KeyError ''network'')
           | Some n \<Rightarrow>
               (case ipn n of
                  None \<Rightarrow> Inl ValueError
                | Some a \<Rightarrow>
                    let r2 = r1(''ip'' \<mapsto> JStr a) in
                    (case r2 ''server'' of
                       None \<Rightarrow> Inl (KeyError ''server'')
                     | Some JNull \<Rightarrow> Inr r2
                     | Some (JObj kv) \<Rightarrow>
                         (case map_of kv ''uuid'' of
                            None \<Rightarrow> Inl (KeyError ''uuid'')
                          | Some u \<Rightarrow> Inr (r2(''server'' \<mapsto> u)))
                     | Some _ \<Rightarrow> Inl TypeError))))"

text \<open>
  \<^verbatim>\<open>update_info\<close>: fetches the floating IP named by the \<^verbatim>\<open>ip\<close> parameter. A response
  that is \<^verbatim>\<open>None\<close> or an empty dictionary is false in \<^verbatim>\<open>if resp:\<close>.
\<close>

definition update_info :: "env \<Rightarrow> params \<Rightarrow> dict run" where
  "update_info e p =
     (case ip p of
        None \<Rightarrow> (Inl TypeError, [])
      | Some a \<Rightarrow>
          let path = ''floating-ips/'' @ a in
          (case api_get e path of
             Inl m \<Rightarrow> (Inl (ApiFailure m), [GET path])
           | Inr resp \<Rightarrow>
               if resp \<noteq> None \<and> resp \<noteq> Some Map.empty
               then (resp2info (ip_network e) resp, [GET path])
               else (Inr [''ip'' \<mapsto> JStr a, ''state'' \<mapsto> JStr ''absent''], [GET path])))"

text \<open>\<^verbatim>\<open>__init__\<close>: the info dictionary starts as absent and is fetched when an address was given.\<close>

definition init :: "env \<Rightarrow> params \<Rightarrow> dict run" where
  "init e p =
     (if truthy (ip p) then update_info e p
      else (Inr [''state'' \<mapsto> JStr ''absent''], []))"

text \<open>
  \<^verbatim>\<open>request_floating_ip\<close>. \<^verbatim>\<open>fail_on_missing_params\<close> counts a parameter as missing when
  \<^verbatim>\<open>not params.get(name)\<close>, which for an integer is \<^verbatim>\<open>None\<close> or \<^verbatim>\<open>0\<close>.
\<close>

definition request_data :: "params \<Rightarrow> dict" where
  "request_data p =
     [''ip_version'' \<mapsto> jint (ip_version p),
      ''server'' \<mapsto> jstr (server p),
      ''prefix_length'' \<mapsto> jint (prefix_length p),
      ''reverse_ptr'' \<mapsto> jstr (reverse_ptr p),
      ''type'' \<mapsto> JStr (type p),
      ''region'' \<mapsto> jstr (region p),
      ''tags'' \<mapsto> jdict (tags p)]"

definition request_floating_ip :: "env \<Rightarrow> params \<Rightarrow> dict run" where
  "request_floating_ip e p =
     (if ip_version p = None \<or> ip_version p = Some 0
      then (Inl (FailJson ''missing required arguments: ip_version''), [])
      else
        (case api_post e ''floating-ips'' (request_data p) of
           Inl m \<Rightarrow> (Inl (ApiFailure m), [POST ''floating-ips'' (request_data p)])
         | Inr resp \<Rightarrow>
             (resp2info (ip_network e) resp, [POST ''floating-ips'' (request_data p)])))"

text \<open>\<^verbatim>\<open>release_floating_ip\<close>: the request is addressed by the \<^verbatim>\<open>ip\<close> parameter.\<close>

definition release_floating_ip :: "env \<Rightarrow> params \<Rightarrow> dict \<Rightarrow> dict run" where
  "release_floating_ip e p info =
     (let path = ''floating-ips/'' @ percent_s (ip p) in
      case api_delete e path of
        Inl m \<Rightarrow> (Inl (ApiFailure m), [DELETE path])
      | Inr _ \<Rightarrow>
          (case info ''ip'' of
             None \<Rightarrow> (Inl (KeyError ''ip''), [DELETE path])
           | Some a \<Rightarrow> (Inr [''ip'' \<mapsto> a, ''state'' \<mapsto> JStr ''absent''], [DELETE path])))"

text \<open>\<^verbatim>\<open>update_floating_ip\<close>.\<close>

definition update_data :: "params \<Rightarrow> dict" where
  "update_data p = [''server'' \<mapsto> jstr (server p), ''tags'' \<mapsto> jdict (tags p)]"

definition update_floating_ip :: "env \<Rightarrow> params \<Rightarrow> dict run" where
  "update_floating_ip e p =
     (if \<not> truthy (server p)
      then (Inl (FailJson ''Missing required parameter to update a floating IP: server.''), [])
      else
        let path = ''floating-ips/'' @ percent_s (ip p) in
        (case api_post e path (update_data p) of
           Inl m \<Rightarrow> (Inl (ApiFailure m), [POST path (update_data p)])
         | Inr resp \<Rightarrow> (resp2info (ip_network e) resp, [POST path (update_data p)])))"

subsection \<open>The function main\<close>

text \<open>
  \<^verbatim>\<open>module.exit_json(changed=c, **info)\<close>: the module's output is the flag and the
  info dictionary. Python refuses the call with \<^verbatim>\<open>TypeError\<close> when the dictionary
  has a key \<^verbatim>\<open>changed\<close> of its own.
\<close>

record outcome =
  changed :: bool
  result :: dict

definition exit_json :: "bool \<Rightarrow> dict \<Rightarrow> error + outcome" where
  "exit_json c info =
     (if info ''changed'' \<noteq> None then Inl TypeError
      else Inr \<lparr>changed = c, result = info\<rparr>)"

text \<open>The local variables \<^verbatim>\<open>target_server\<close> and \<^verbatim>\<open>current_server\<close> of \<^verbatim>\<open>main\<close>.\<close>

definition target_server :: "params \<Rightarrow> json" where
  "target_server p = jstr (server p)"

definition current_server :: "dict \<Rightarrow> json" where
  "current_server info = (case info ''server'' of None \<Rightarrow> JNull | Some s \<Rightarrow> s)"

text \<open>A method call of \<^verbatim>\<open>main\<close> followed by \<^verbatim>\<open>changed = True\<close> and the final \<^verbatim>\<open>exit_json\<close>.\<close>

definition then_exit :: "dict run \<Rightarrow> outcome run" where
  "then_exit r =
     (case fst r of
        Inl err \<Rightarrow> (Inl err, snd r)
      | Inr info \<Rightarrow> (exit_json True info, snd r))"

text \<open>
  The part of \<^verbatim>\<open>main\<close> after the object has been built: it reads the info dictionary,
  leaves through \<^verbatim>\<open>exit_json\<close> at once in check mode, and otherwise walks the
  \<^verbatim>\<open>if\<close>/\<^verbatim>\<open>elif\<close> chain.
\<close>

definition reconcile :: "env \<Rightarrow> params \<Rightarrow> bool \<Rightarrow> dict \<Rightarrow> outcome run" where
  "reconcile e p check_mode info =
     (case info ''state'' of
        None \<Rightarrow> (Inl (KeyError ''state''), [])
      | Some current_state \<Rightarrow>
          let target_state = JStr (state_str (state p)) in
          if check_mode then
            (exit_json
               (\<not> target_state = current_state \<or>
                (current_state = JStr ''present'' \<and> current_server info \<noteq> target_server p))
               info, [])
          else if current_state = JStr ''absent'' \<and> target_state = JStr ''present'' then
            then_exit (request_floating_ip e p)
          else if current_state = JStr ''present'' \<and> target_state = JStr ''absent'' then
            then_exit (release_floating_ip e p info)
          else if current_state = JStr ''present'' \<and> current_server info \<noteq> target_server p then
            then_exit (update_floating_ip e p)
          else (exit_json False info, []))"

definition main :: "env \<Rightarrow> params \<Rightarrow> bool \<Rightarrow> outcome run" where
  "main e p check_mode =
     (if \<not> has_ipaddress e
      then (Inl (FailJson ''Failed to import the required Python library (ipaddress)''), [])
      else
        (case fst (init e p) of
           Inl err \<Rightarrow> (Inl err, snd (init e p))
         | Inr info \<Rightarrow>
             (fst (reconcile e p check_mode info),
              snd (init e p) @ snd (reconcile e p check_mode info))))"

subsection \<open>The decision table of the specification\<close>

text \<open>
  The specification's table, row by row and in its order: the state of the current
  record, the desired state, and whether the current server equals the desired one.
\<close>

datatype action = NoOp | Create | Delete | Update

fun decision_table :: "lifecycle \<Rightarrow> lifecycle \<Rightarrow> bool \<Rightarrow> action" where
  "decision_table Absent Absent _ = NoOp"
| "decision_table Absent Present _ = Create"
| "decision_table Present Absent _ = Delete"
| "decision_table Present Present True = NoOp"
| "decision_table Present Present False = Update"

text \<open>What \<^verbatim>\<open>main\<close> does for each action: the method it calls and the flag it reports.\<close>

definition perform :: "env \<Rightarrow> params \<Rightarrow> dict \<Rightarrow> action \<Rightarrow> outcome run" where
  "perform e p info a =
     (case a of
        NoOp \<Rightarrow> (exit_json False info, [])
      | Create \<Rightarrow> then_exit (request_floating_ip e p)
      | Delete \<Rightarrow> then_exit (release_floating_ip e p info)
      | Update \<Rightarrow> then_exit (update_floating_ip e p))"

subsection \<open>CIDR literals\<close>


subsection \<open>Reading a run\<close>

text \<open>A field of the record that a run reports; \<open>None\<close> when the run has failed.\<close>

definition reported :: "outcome run \<Rightarrow> string \<Rightarrow> json option" where
  "reported r k = (case fst r of Inl err \<Rightarrow> None | Inr out \<Rightarrow> result out k)"

text \<open>The flag that a run reports; \<open>None\<close> when the run has failed.\<close>

definition reported_changed :: "outcome run \<Rightarrow> bool option" where
  "reported_changed r = (case fst r of Inl err \<Rightarrow> None | Inr out \<Rightarrow> Some (changed out))"

subsection \<open>A concrete service\<close>

text \<open>
  A service that holds the address \<^verbatim>\<open>192.0.2.123\<close>, routed to the server \<^verbatim>\<open>srv-1\<close>,
  and the unassigned network \<^verbatim>\<open>2001:db8::/56\<close>, which it also finds when it is asked
  for \<^verbatim>\<open>2001:0db8::\<close>; a newly requested address is \<^verbatim>\<open>198.51.100.7\<close>. An update
  or a creation answers with the resource and the server it was asked to route to.
\<close>

definition server_ref :: "string \<Rightarrow> json" where
  "server_ref u =
     JObj [(''href'', JStr (''https://api.cloudscale.ch/v1/servers/'' @ u)), (''uuid'', JStr u)]"

definition resource :: "string \<Rightarrow> json \<Rightarrow> dict" where
  "resource n s = [''network'' \<mapsto> JStr n, ''server'' \<mapsto> s]"

definition routed :: "string \<Rightarrow> dict \<Rightarrow> string + dict option" where
  "routed n data =
     (case data ''server'' of
        Some (JStr u) \<Rightarrow> Inr (Some (resource n (server_ref u)))
      | Some JNull \<Rightarrow> Inr (Some (resource n JNull))
      | _ \<Rightarrow> Inl ''bad request'')"

definition demo_env :: env where
  "demo_env =
     \<lparr>has_ipaddress = True,
      ip_network = py_ip_network,
      api_get = (\<lambda>path.
        if path = ''floating-ips/192.0.2.123''
        then Inr (Some (resource ''192.0.2.123/32'' (server_ref ''srv-1'')))
        else if path = ''floating-ips/2001:0db8::''
        then Inr (Some (resource ''2001:db8::/56'' JNull))
        else Inr None),
      api_post = (\<lambda>path data.
        if path = ''floating-ips'' then routed ''198.51.100.7/32'' data
        else if path = ''floating-ips/192.0.2.123'' then routed ''192.0.2.123/32'' data
        else Inl ''not found''),
      api_delete = (\<lambda>path. Inr ())\<rparr>"

text \<open>
  The records that \<^verbatim>\<open>_resp2info\<close> makes of the three resources: of the fetched address,
  of the fetched network, of a new address requested for a server, and of the fetched
  address once it is routed to \<^verbatim>\<open>srv-2\<close>.
\<close>

definition demo_info :: dict where
  "demo_info =
     (resource ''192.0.2.123/32'' (server_ref ''srv-1''))
       (''state'' \<mapsto> JStr ''present'', ''ip'' \<mapsto> JStr ''192.0.2.123'',
        ''server'' \<mapsto> JStr ''srv-1'')"

definition range_info :: dict where
  "range_info =
     (resource ''2001:db8::/56'' JNull)
       (''state'' \<mapsto> JStr ''present'', ''ip'' \<mapsto> JStr ''2001:db8::'')"

definition created_info :: "string \<Rightarrow> dict" where
  "created_info u =
     (resource ''198.51.100.7/32'' (server_ref u))
       (''state'' \<mapsto> JStr ''present'', ''ip'' \<mapsto> JStr ''198.51.100.7'',
        ''server'' \<mapsto> JStr u)"

definition moved_info :: dict where
  "moved_info =
     (resource ''192.0.2.123/32'' (server_ref ''srv-2''))
       (''state'' \<mapsto> JStr ''present'', ''ip'' \<mapsto> JStr ''192.0.2.123'',
        ''server'' \<mapsto> JStr ''srv-2'')"

text \<open>
  Other records and resources: the record of an address that the service does not hold,
  a resource that has nothing but a network, one whose network is a number, and one
  that has nothing but a server.
\<close>

definition unknown_info :: "string \<Rightarrow> dict" where
  "unknown_info a = [''ip'' \<mapsto> JStr a, ''state'' \<mapsto> JStr ''absent'']"

definition network_only :: "string \<Rightarrow> dict" where
  "network_only n = [''network'' \<mapsto> JStr n]"

definition numbered :: "int \<Rightarrow> dict" where
  "numbered i = [''network'' \<mapsto> JInt i, ''server'' \<mapsto> JNull]"

definition server_only :: dict where
  "server_only = [''server'' \<mapsto> JNull]"

text \<open>
  Variations of a service: one that holds a given resource under a given path, and one
  that answers every POST request with a given resource.
\<close>

definition holding :: "string \<Rightarrow> dict \<Rightarrow> env \<Rightarrow> env" where
  "holding path r e = e\<lparr>api_get := (\<lambda>q. if q = path then Inr (Some r) else api_get e q)\<rparr>"

definition answering :: "dict \<Rightarrow> env \<Rightarrow> env" where
  "answering r e = e\<lparr>api_post := (\<lambda>path data. Inr (Some r))\<rparr>"

text \<open>Parameters that name an address, a desired state and, possibly, a server.\<close>

definition demo_params :: "string \<Rightarrow> lifecycle \<Rightarrow> string option \<Rightarrow> params" where
  "demo_params a st srv =
     \<lparr>state = st, ip = Some a, ip_version = None, server = srv, type = ''regional'',
      region = None, prefix_length = None, reverse_ptr = None, tags = None\<rparr>"

text \<open>Parameters that ask for a new address of an IP version, possibly for a server.\<close>

definition new_params :: "int option \<Rightarrow> string option \<Rightarrow> params" where
  "new_params v srv =
     \<lparr>state = Present, ip = None, ip_version = v, server = srv, type = ''regional'',
      region = None, prefix_length = None, reverse_ptr = None, tags = None\<rparr>"

section \<open>Properties\<close>

subsection \<open>Facts about ip_network\<close>

text \<open>
  An IPv4 address printed by the library is read back by the library, and a network in
  CIDR notation is accepted exactly when the bits behind the prefix are zero.
\<close>

lemma str_split_single: "sep \<notin> set u \<Longrightarrow> str_split sep u = [u]"
  by (induction u) (auto split: list.splits)

lemma str_split_append:
  "sep \<notin> set u \<Longrightarrow> str_split sep (u @ sep # v) = u # str_split sep v"
  by (induction u) (auto split: list.splits)

lemma digit_char_props:
  assumes "k < 10"
  shows "digit_value (digit_char k) = Some k"
    and "CHR ''.'' \<noteq> digit_char k" and "CHR ''/'' \<noteq> digit_char k"
    and "(digit_char k = CHR ''0'') = (k = 0)"
proof -
  from assms have "k \<in> {0, 1, 2, 3, 4, 5, 6, 7, 8, 9}"
    by (simp add: numeral_eq_Suc less_Suc_eq)
  then show "digit_value (digit_char k) = Some k"
    and "CHR ''.'' \<noteq> digit_char k" and "CHR ''/'' \<noteq> digit_char k"
    and "(digit_char k = CHR ''0'') = (k = 0)"
    by (auto simp: digit_value_def digit_char_def)
qed

lemma str_byte_props:
  assumes "n < 256"
  shows "isdigit (str_byte n)" and "length (str_byte n) \<le> 3"
    and "int_of_str 10 digit_value (str_byte n) = n"
    and "CHR ''.'' \<notin> set (str_byte n)" and "CHR ''/'' \<notin> set (str_byte n)"
    and "str_byte n \<noteq> ''0'' \<longrightarrow> hd (str_byte n) \<noteq> CHR ''0''"
proof -
  have d: "n div 100 < 10" "n div 10 mod 10 < 10" "n mod 10 < 10" "n < 100 \<Longrightarrow> n div 10 < 10"
    using assms by auto
  have z: "n div 100 \<noteq> 0" if "\<not> n < 100"
    using that by auto
  have y: "n div 10 \<noteq> 0" if "\<not> n < 10"
    using that by auto
  show "isdigit (str_byte n)"
    using d by (simp add: str_byte_def isdigit_def digit_char_props)
  show "length (str_byte n) \<le> 3"
    by (simp add: str_byte_def)
  have lin: "100 * A + 10 * B + C = n" if "10 * m + C = n" "10 * A + B = m" for A B C m :: nat
    using that by simp
  have t: "10 * (n div 10) + n mod 10 = n"
    by simp
  have "n div 100 = n div 10 div 10"
    by (simp add: div_mult2_eq)
  then have h: "100 * (n div 100) + 10 * (n div 10 mod 10) + n mod 10 = n"
    using lin [of "n div 10" "n mod 10" "n div 10 div 10" "n div 10 mod 10"] by simp
  show "int_of_str 10 digit_value (str_byte n) = n"
    using d t h by (simp add: str_byte_def int_of_str_def digit_char_props)
  show "CHR ''.'' \<notin> set (str_byte n)" "CHR ''/'' \<notin> set (str_byte n)"
    using d by (simp_all add: str_byte_def digit_char_props)
  show "str_byte n \<noteq> ''0'' \<longrightarrow> hd (str_byte n) \<noteq> CHR ''0''"
    using d y z by (simp add: str_byte_def digit_char_props)
qed

lemma parse_octet_str_byte: "n < 256 \<Longrightarrow> parse_octet (str_byte n) = Some n"
  using str_byte_props [of n]
  by (auto simp: parse_octet_def isdigit_def)


lemma v4_string_no_slash: "CHR ''/'' \<notin> set (v4_string_from_ip_int x)"
  by (simp add: v4_string_from_ip_int_def str_join_def str_byte_props(5))

lemma v4_round_trip:
  assumes "x < 2 ^ 32"
  shows "v4_ip_int_from_string (v4_string_from_ip_int x) = Inr x"
proof -
  let ?a = "x div 2 ^ 24 mod 256" and ?b = "x div 2 ^ 16 mod 256"
  let ?c = "x div 2 ^ 8 mod 256" and ?d = "x mod 256"
  have s: "v4_string_from_ip_int x =
      str_byte ?a @ CHR ''.'' # str_byte ?b @ CHR ''.'' # str_byte ?c @ CHR ''.'' # str_byte ?d"
    by (simp add: v4_string_from_ip_int_def str_join_def)
  have octets: "str_split CHR ''.'' (v4_string_from_ip_int x) =
      [str_byte ?a, str_byte ?b, str_byte ?c, str_byte ?d]"
    unfolding s by (simp add: str_split_append str_split_single str_byte_props(4))
  have ne: "v4_string_from_ip_int x \<noteq> []"
    unfolding s using str_byte_props(1) [of ?a] by (auto simp: isdigit_def)
  have lin: "256 * (256 * (256 * A + B) + C) + D = x"
    if "256 * y1 + D = x" "256 * y2 + C = y1" "256 * A + B = y2" for A B C D y1 y2 :: nat
    using that by simp
  have e1: "x div 65536 = x div 256 div 256" "x div 16777216 = x div 256 div 256 div 256"
    by (simp_all add: div_mult2_eq)
  have "x div 256 div 256 div 256 < 256"
    using assms by (simp add: div_mult2_eq less_mult_imp_div_less)
  then have e2: "x div 256 div 256 div 256 mod 256 = x div 256 div 256 div 256"
    by simp
  have x: "256 * (256 * (256 * ?a + ?b) + ?c) + ?d = x"
    using lin [of "x div 256" "x mod 256" "x div 256 div 256" "x div 256 mod 256"
                  "x div 256 div 256 div 256" "x div 256 div 256 mod 256"]
    by (simp add: e1 e2)
  have e3: "x div 16777216 mod 256 = x div 16777216"
    using e1(2) e2 by simp
  have e4: "x div 16777216 < 256"
    using e1(2) e2 by (metis mod_less_divisor zero_less_numeral)
  show ?thesis
    using ne x e3 e4 by (simp add: v4_ip_int_from_string_def octets parse_octet_str_byte)
qed

lemma host_bits:
  assumes "x < 2 ^ 32" "l \<le> 32"
  shows "(x AND ip_int_from_prefix 32 l = x) \<longleftrightarrow> 2 ^ (32 - l) dvd x"
proof -
  have "(2::nat) ^ 32 - 1 = mask 32"
    by (simp only: mask_eq_exp_minus_1)
  then have m: "ip_int_from_prefix 32 l = mask 32 XOR mask (32 - l)"
    by (simp only: ip_int_from_prefix_def drop_bit_mask_eq)
  have b: "i < 32" if "bit x i" for i
    using assms(1) that by (metis bit_take_bit_iff take_bit_nat_eq_self_iff)
  have 1: "(x AND (mask 32 XOR mask (32 - l)) = x) \<longleftrightarrow>
           (\<forall>i. bit x i \<longrightarrow> bit (mask 32 XOR mask (32 - l) :: nat) i)"
    by (auto simp: bit_eq_iff bit_and_iff)
  have 2: "bit (mask 32 XOR mask (32 - l) :: nat) i \<longleftrightarrow> 32 - l \<le> i \<and> i < 32" for i
    by (auto simp: bit_xor_iff bit_mask_iff)
  have 3: "take_bit (32 - l) x = 0 \<longleftrightarrow> (\<forall>i. bit x i \<longrightarrow> 32 - l \<le> i)"
    by (auto simp: bit_eq_iff bit_take_bit_iff not_less)
  from 1 2 3 b have "(x AND (mask 32 XOR mask (32 - l)) = x) \<longleftrightarrow> take_bit (32 - l) x = 0"
    by blast
  then show ?thesis
    by (simp add: m take_bit_eq_0_iff)
qed

lemma py_ip_network_v4_cidr:
  assumes "x < 2 ^ 32" "l \<le> 32"
  shows "py_ip_network (JStr (v4_string_from_ip_int x @ ''/'' @ str_byte l)) =
           (if 2 ^ (32 - l) dvd x then Some (v4_string_from_ip_int x) else None)"
proof -
  have l: "l < 256"
    using assms(2) by simp
  have parts: "str_split CHR ''/'' (v4_string_from_ip_int x @ CHR ''/'' # str_byte l) =
      [v4_string_from_ip_int x, str_byte l]"
    by (simp add: str_split_append str_split_single v4_string_no_slash str_byte_props(5) [OF l])
  have pre: "prefix_from_prefix_string 32 (str_byte l) = Inr l"
    using assms(2) str_byte_props(1,3) [OF l] by (simp add: prefix_from_prefix_string_def)
  have net: "IPv4Network (StrAddress (v4_string_from_ip_int x @ CHR ''/'' # str_byte l)) =
      (if 2 ^ (32 - l) dvd x then Inr x else Inl HostBitsSet)"
    using host_bits [OF assms]
    by (simp add: IPv4Network_def split_addr_prefix_def split_optional_netmask_def parts
        IPv4Address_def v4_string_no_slash v4_round_trip [OF assms(1)] v4_make_netmask_def pre
        Let_def)
  show ?thesis
    by (simp add: py_ip_network_def network_address_of_def net)
qed

text \<open>The definitions of the library, grouped for evaluation, and the networks used below.\<close>

lemmas ip_defs = py_ip_network_def network_address_of_def IPv4Network_def IPv6Network_def
  IPv4Address_def IPv6Address_def split_addr_prefix_def split_optional_netmask_def
  v4_make_netmask_def v6_make_netmask_def prefix_from_prefix_string_def prefix_from_ip_string_def
  prefix_from_ip_int_def count_righthand_zero_bits_def ip_int_from_prefix_def
  v4_ip_int_from_string_def v6_ip_int_from_string_def parse_octet_def parse_hextet_def
  isdigit_def digit_value_def hex_value_def int_of_str_def str_byte_def percent_x_def
  digit_char_def str_join_def v4_string_from_ip_int_def v6_string_from_ip_int_def
  compress_hextets_def split_scope_id_def v6_str_def push_bit_eq_mult drop_bit_eq_div

lemma network_values:
  "py_ip_network (JStr ''192.0.2.123/32'') = Some ''192.0.2.123''"
  "py_ip_network (JStr ''198.51.100.7/32'') = Some ''198.51.100.7''"
  "py_ip_network (JStr ''2001:db8::/56'') = Some ''2001:db8::''"
  "py_ip_network (JStr ''192.0.2.123'') = Some ''192.0.2.123''"
  "py_ip_network (JInt 5) = Some ''0.0.0.5''"
  "py_ip_network (JStr ''192.0.2.123/24'') = None"
  "py_ip_network (JStr ''not-a-network'') = None"
  by (simp_all add: ip_defs)

subsection \<open>Auxiliary facts\<close>

lemma then_exit_Inr:
  "then_exit r = (Inr out, cs) \<longleftrightarrow>
     (\<exists>info. fst r = Inr info \<and> snd r = cs \<and> info ''changed'' = None \<and>
             out = \<lparr>changed = True, result = info\<rparr>)"
  by (cases r; cases "fst r") (auto simp: then_exit_def exit_json_def)


lemma resp2info_ip:
  "resp2info ipn resp = Inr info \<Longrightarrow>
     \<exists>r n a. resp = Some r \<and> r ''network'' = Some n \<and> ipn n = Some a \<and>
             info ''ip'' = Some (JStr a)"
  by (auto simp: resp2info_def Let_def split: option.splits json.splits)

lemma main_eq:
  "has_ipaddress e \<Longrightarrow> fst (init e p) = Inr info \<Longrightarrow>
     main e p c = (fst (reconcile e p c info), snd (init e p) @ snd (reconcile e p c info))"
  by (simp add: main_def)

lemma init_calls: "c \<in> set (snd (init e p)) \<Longrightarrow> \<exists>path. c = GET path"
  by (auto simp: init_def update_info_def Let_def split: if_splits option.splits sum.splits)

lemma init_present:
  assumes "fst (init e p) = Inr info" "info ''state'' = Some (JStr ''present'')"
  shows "\<exists>a r. ip p = Some a \<and> a \<noteq> [] \<and> api_get e (''floating-ips/'' @ a) = Inr (Some r) \<and>
           resp2info (ip_network e) (Some r) = Inr info \<and>
           snd (init e p) = [GET (''floating-ips/'' @ a)]"
  using assms
  by (auto simp: init_def update_info_def truthy_def Let_def
      split: if_splits option.splits sum.splits)

text \<open>The fetches of the concrete service, evaluated.\<close>

lemma init_demo:
  "init demo_env (demo_params ''192.0.2.123'' st srv) =
     (Inr demo_info, [GET ''floating-ips/192.0.2.123''])"
  by (simp add: init_def update_info_def truthy_def demo_params_def demo_env_def demo_info_def
      resp2info_def resource_def server_ref_def network_values)

lemma init_range:
  "init demo_env (demo_params ''2001:0db8::'' st srv) =
     (Inr range_info, [GET ''floating-ips/2001:0db8::''])"
  by (simp add: init_def update_info_def truthy_def demo_params_def demo_env_def range_info_def
      resp2info_def resource_def network_values)

text \<open>The definitions, grouped for evaluation.\<close>

lemmas param_defs = jstr_def jint_def jdict_def truthy_def percent_s_def
  target_server_def current_server_def

lemmas method_defs = resp2info_def update_info_def init_def request_data_def
  request_floating_ip_def release_floating_ip_def update_data_def update_floating_ip_def

lemmas main_defs = exit_json_def then_exit_def reconcile_def main_def perform_def
  reported_def reported_changed_def

lemmas demo_defs = network_values server_ref_def resource_def routed_def demo_env_def
  demo_info_def range_info_def created_info_def moved_info_def demo_params_def new_params_def
  holding_def answering_def unknown_info_def network_only_def numbered_def server_only_def






subsection \<open>The decision table\<close>

text \<open>
  Claim C1. In a real run the \<^verbatim>\<open>if\<close>/\<^verbatim>\<open>elif\<close> chain of \<^verbatim>\<open>main\<close> does, for every
  current record and every parameters, what the decision table selects from the
  current state, the desired state and the comparison of the two servers: nothing for
  absent/absent, \<^verbatim>\<open>request_floating_ip\<close> for absent/present, \<^verbatim>\<open>release_floating_ip\<close>
  for present/absent, nothing for present/present with equal servers and
  \<^verbatim>\<open>update_floating_ip\<close> for present/present with different servers. The tags play no
  part: with equal servers, whatever tags are desired, the run ends at once with
  \<^verbatim>\<open>changed = False\<close> and no request.
\<close>

theorem reconcile_follows_decision_table:
  assumes "info ''state'' = Some (JStr (state_str cur))"
  shows "reconcile e p False info =
           perform e p info
             (decision_table cur (state p) (current_server info = target_server p))
         \<and> (cur = Present \<and> state p = Present \<and> current_server info = target_server p
              \<longrightarrow> reconcile e (p\<lparr>tags := t\<rparr>) False info = (exit_json False info, []))"
  using assms
  by (cases cur; cases "state p"; cases "current_server info = target_server p")
     (simp_all add: reconcile_def perform_def target_server_def)

text \<open>
  The table at work: the address is routed to \<^verbatim>\<open>srv-1\<close>; desiring \<^verbatim>\<open>srv-2\<close> posts one
  update and reports the new server, while desiring \<^verbatim>\<open>srv-1\<close> with new tags does nothing.
\<close>

theorem reconcile_follows_decision_table_witness:
  "demo_info ''state'' = Some (JStr (state_str Present)) \<and>
   reconcile demo_env (demo_params ''192.0.2.123'' Present (Some ''srv-2'')) False demo_info =
     perform demo_env (demo_params ''192.0.2.123'' Present (Some ''srv-2'')) demo_info Update \<and>
   snd (reconcile demo_env (demo_params ''192.0.2.123'' Present (Some ''srv-2'')) False demo_info) =
     [POST ''floating-ips/192.0.2.123''
        (update_data (demo_params ''192.0.2.123'' Present (Some ''srv-2'')))] \<and>
   reported_changed
     (reconcile demo_env (demo_params ''192.0.2.123'' Present (Some ''srv-2'')) False demo_info) =
     Some True \<and>
   reported
     (reconcile demo_env (demo_params ''192.0.2.123'' Present (Some ''srv-2'')) False demo_info)
     ''server'' = Some (JStr ''srv-2'') \<and>
   reconcile demo_env
     (demo_params ''192.0.2.123'' Present (Some ''srv-1'') \<lparr>tags := Some [(''k'', JStr ''v'')]\<rparr>)
     False demo_info = (Inr \<lparr>changed = False, result = demo_info\<rparr>, [])"
  using reconcile_follows_decision_table
          [of demo_info Present demo_env "demo_params ''192.0.2.123'' Present (Some ''srv-2'')"]
        reconcile_follows_decision_table
          [of demo_info Present demo_env "demo_params ''192.0.2.123'' Present (Some ''srv-1'')"
              "Some [(''k'', JStr ''v'')]"]
  by (simp add: demo_info_def demo_params_def demo_env_def perform_def then_exit_def
      update_floating_ip_def truthy_def percent_s_def update_data_def resp2info_def
      resource_def server_ref_def routed_def network_values exit_json_def reported_def
      reported_changed_def current_server_def target_server_def jstr_def jdict_def)

subsection \<open>Check mode\<close>

text \<open>
  Claim C2, as the code has it. In check mode \<^verbatim>\<open>main\<close> makes no request and leaves
  through \<^verbatim>\<open>exit_json\<close> with the current record, unchanged, and with \<^verbatim>\<open>changed\<close> true
  exactly when the decision table selects an action other than no-op. A real run that
  completes reports the same value of \<^verbatim>\<open>changed\<close>. The two runs are the same run when the
  action is no-op; after a create, an update or a delete the real run reports the record
  that the action has produced, not the current one.
\<close>

theorem dry_run_reports_change_of_real_run:
  assumes "info ''state'' = Some (JStr (state_str cur))"
  shows "reconcile e p True info =
           (exit_json
              (decision_table cur (state p) (current_server info = target_server p) \<noteq> NoOp)
              info, [])
         \<and> (\<forall>out cs. reconcile e p False info = (Inr out, cs) \<longrightarrow>
               changed out =
                 (decision_table cur (state p) (current_server info = target_server p) \<noteq> NoOp))
         \<and> (decision_table cur (state p) (current_server info = target_server p) = NoOp \<longrightarrow>
               reconcile e p False info = reconcile e p True info)"
  using assms
  by (cases cur; cases "state p"; cases "current_server info = target_server p")
     (auto simp: reconcile_def then_exit_Inr exit_json_def split: if_splits)

text \<open>
  For the address routed to \<^verbatim>\<open>srv-1\<close>: desiring \<^verbatim>\<open>srv-2\<close>, check mode reports the
  current record with \<^verbatim>\<open>changed = True\<close> and no request, and the real run reports
  \<^verbatim>\<open>changed = True\<close> as well; desiring \<^verbatim>\<open>srv-1\<close>, both runs are equal.
\<close>

theorem dry_run_reports_change_of_real_run_witness:
  "demo_info ''state'' = Some (JStr (state_str Present)) \<and>
   reconcile demo_env (demo_params ''192.0.2.123'' Present (Some ''srv-2'')) True demo_info =
     (Inr \<lparr>changed = True, result = demo_info\<rparr>, []) \<and>
   reported_changed
     (reconcile demo_env (demo_params ''192.0.2.123'' Present (Some ''srv-2'')) False demo_info) =
     Some True \<and>
   reconcile demo_env (demo_params ''192.0.2.123'' Present (Some ''srv-1'')) False demo_info =
     reconcile demo_env (demo_params ''192.0.2.123'' Present (Some ''srv-1'')) True demo_info"
proof -
  let ?p = "demo_params ''192.0.2.123'' Present (Some ''srv-2'')"
  let ?q = "demo_params ''192.0.2.123'' Present (Some ''srv-1'')"
  have st: "demo_info ''state'' = Some (JStr (state_str Present))"
    by (simp add: demo_info_def)
  have dp: "decision_table Present (state ?p) (current_server demo_info = target_server ?p) = Update"
    by (simp add: param_defs demo_defs)
  have dq: "decision_table Present (state ?q) (current_server demo_info = target_server ?q) = NoOp"
    by (simp add: param_defs demo_defs)
  have ex: "exit_json True demo_info = Inr \<lparr>changed = True, result = demo_info\<rparr>"
    by (simp add: exit_json_def demo_defs)
  obtain out cs where real: "reconcile demo_env ?p False demo_info = (Inr out, cs)"
    by (simp add: param_defs method_defs main_defs demo_defs)
  note p = dry_run_reports_change_of_real_run [of demo_info Present demo_env ?p, OF st]
  note q = dry_run_reports_change_of_real_run [of demo_info Present demo_env ?q, OF st]
  from p dp ex have 1: "reconcile demo_env ?p True demo_info =
      (Inr \<lparr>changed = True, result = demo_info\<rparr>, [])"
    by simp
  from p dp real have "changed out = True"
    by simp
  with real have 2: "reported_changed (reconcile demo_env ?p False demo_info) = Some True"
    by (simp add: reported_changed_def)
  from q dq have 3: "reconcile demo_env ?q False demo_info = reconcile demo_env ?q True demo_info"
    by simp
  from st 1 2 3 show ?thesis by blast
qed

text \<open>
  The claim as stated, that check mode yields the same result record as a real run,
  fails when the address is to be released: both runs report \<^verbatim>\<open>changed = True\<close>, but
  check mode reports the record as present and routed to \<^verbatim>\<open>srv-1\<close>, the real run
  as absent and without a server.
\<close>

theorem dry_run_record_differs_counterexample:
  "reported_changed (reconcile demo_env (demo_params ''192.0.2.123'' Absent None) True demo_info) =
     Some True \<and>
   reported_changed (reconcile demo_env (demo_params ''192.0.2.123'' Absent None) False demo_info) =
     Some True \<and>
   reported (reconcile demo_env (demo_params ''192.0.2.123'' Absent None) True demo_info) ''state'' =
     Some (JStr ''present'') \<and>
   reported (reconcile demo_env (demo_params ''192.0.2.123'' Absent None) False demo_info) ''state'' =
     Some (JStr ''absent'') \<and>
   reported (reconcile demo_env (demo_params ''192.0.2.123'' Absent None) True demo_info) ''server'' =
     Some (JStr ''srv-1'') \<and>
   reported (reconcile demo_env (demo_params ''192.0.2.123'' Absent None) False demo_info) ''server'' =
     None"
  by (simp add: param_defs method_defs main_defs demo_defs)

subsection \<open>Idempotence\<close>




subsection \<open>Missing parameters\<close>

text \<open>
  Claim C4, as the code has it. In a real run with desired state present: when the
  current record is absent (so that \<^verbatim>\<open>request_floating_ip\<close> is called) and
  \<^verbatim>\<open>ip_version\<close> was not given, the run fails through \<^verbatim>\<open>fail_json\<close> for the missing
  \<^verbatim>\<open>ip_version\<close>; when the current record is present with another server than the
  desired one (so that \<^verbatim>\<open>update_floating_ip\<close> is called) and \<^verbatim>\<open>server\<close> was not given,
  it fails through \<^verbatim>\<open>fail_json\<close> for the missing \<^verbatim>\<open>server\<close>. The failure comes before
  any create, update or delete request; the only request of the whole run is the fetch
  by which \<^verbatim>\<open>__init__\<close> has obtained the current record. In check mode the same inputs
  do not fail: the run leaves through \<^verbatim>\<open>exit_json\<close> with \<^verbatim>\<open>changed = True\<close>.
\<close>

theorem missing_parameter_fails_before_any_request:
  assumes "state p = Present"
  shows "(info ''state'' = Some (JStr ''absent'') \<and> ip_version p = None \<longrightarrow>
            reconcile e p False info =
              (Inl (FailJson ''missing required arguments: ip_version''), []))
       \<and> (info ''state'' = Some (JStr ''present'') \<and> current_server info \<noteq> target_server p \<and>
          server p = None \<longrightarrow>
            reconcile e p False info =
              (Inl (FailJson ''Missing required parameter to update a floating IP: server.''), []))
       \<and> (has_ipaddress e \<and> fst (init e p) = Inr info \<and>
          (info ''state'' = Some (JStr ''absent'') \<and> ip_version p = None \<or>
           info ''state'' = Some (JStr ''present'') \<and> current_server info \<noteq> target_server p \<and>
           server p = None) \<longrightarrow>
            (\<exists>msg. fst (main e p False) = Inl (FailJson msg)) \<and>
            (\<forall>c \<in> set (snd (main e p False)). \<exists>path. c = GET path))
       \<and> (info ''state'' = Some (JStr ''absent'') \<and> ip_version p = None \<or>
          info ''state'' = Some (JStr ''present'') \<and> current_server info \<noteq> target_server p \<and>
          server p = None \<longrightarrow>
            reconcile e p True info = (exit_json True info, []))"
proof -
  have 1: "reconcile e p False info =
             (Inl (FailJson ''missing required arguments: ip_version''), [])"
    if "info ''state'' = Some (JStr ''absent'')" "ip_version p = None"
    using that assms by (simp add: reconcile_def then_exit_def request_floating_ip_def)
  have 2: "reconcile e p False info =
             (Inl (FailJson ''Missing required parameter to update a floating IP: server.''), [])"
    if "info ''state'' = Some (JStr ''present'')" "current_server info \<noteq> target_server p"
      "server p = None"
    using that assms
    by (simp add: reconcile_def then_exit_def update_floating_ip_def truthy_def)
  have 3: "(\<exists>msg. fst (main e p False) = Inl (FailJson msg)) \<and>
           (\<forall>c \<in> set (snd (main e p False)). \<exists>path. c = GET path)"
    if "has_ipaddress e" "fst (init e p) = Inr info"
      "info ''state'' = Some (JStr ''absent'') \<and> ip_version p = None \<or>
       info ''state'' = Some (JStr ''present'') \<and> current_server info \<noteq> target_server p \<and>
       server p = None"
    using that 1 2 init_calls [of _ e p] by (auto simp: main_eq)
  have 4: "reconcile e p True info = (exit_json True info, [])"
    if "info ''state'' = Some (JStr ''absent'') \<and> ip_version p = None \<or>
        info ''state'' = Some (JStr ''present'') \<and> current_server info \<noteq> target_server p \<and>
        server p = None"
    using that assms by (auto simp: reconcile_def)
  from 1 2 3 4 show ?thesis by blast
qed

text \<open>
  An address that the service does not know, desired present without \<^verbatim>\<open>ip_version\<close>;
  and the address routed to \<^verbatim>\<open>srv-1\<close>, desired present without \<^verbatim>\<open>server\<close>.
\<close>

theorem missing_parameter_fails_before_any_request_witness:
  "reconcile demo_env (demo_params ''198.51.100.9'' Present None) False
     (unknown_info ''198.51.100.9'') =
     (Inl (FailJson ''missing required arguments: ip_version''), []) \<and>
   main demo_env (demo_params ''198.51.100.9'' Present None) False =
     (Inl (FailJson ''missing required arguments: ip_version''),
      [GET ''floating-ips/198.51.100.9'']) \<and>
   reconcile demo_env (demo_params ''192.0.2.123'' Present None) False demo_info =
     (Inl (FailJson ''Missing required parameter to update a floating IP: server.''), []) \<and>
   main demo_env (demo_params ''192.0.2.123'' Present None) False =
     (Inl (FailJson ''Missing required parameter to update a floating IP: server.''),
      [GET ''floating-ips/192.0.2.123''])"
proof -
  let ?p = "demo_params ''198.51.100.9'' Present None"
  let ?i = "unknown_info ''198.51.100.9''"
  let ?q = "demo_params ''192.0.2.123'' Present None"
  have sp: "state ?p = Present" and sq: "state ?q = Present"
    by (simp_all add: demo_params_def)
  have hp: "?i ''state'' = Some (JStr ''absent'')" "ip_version ?p = None"
    by (simp_all add: demo_params_def unknown_info_def)
  have hq: "demo_info ''state'' = Some (JStr ''present'')"
    "current_server demo_info \<noteq> target_server ?q" "server ?q = None"
    by (simp_all add: param_defs demo_defs)
  have ip: "init demo_env ?p = (Inr ?i, [GET ''floating-ips/198.51.100.9''])"
    by (simp add: init_def update_info_def truthy_def demo_params_def demo_env_def
        unknown_info_def)
  have e: "has_ipaddress demo_env"
    by (simp add: demo_env_def)
  from missing_parameter_fails_before_any_request [OF sp, of ?i demo_env] hp
  have 1: "reconcile demo_env ?p False ?i =
      (Inl (FailJson ''missing required arguments: ip_version''), [])"
    by blast
  from missing_parameter_fails_before_any_request [OF sq, of demo_info demo_env] hq
  have 2: "reconcile demo_env ?q False demo_info =
      (Inl (FailJson ''Missing required parameter to update a floating IP: server.''), [])"
    by blast
  have 3: "main demo_env ?p False =
      (Inl (FailJson ''missing required arguments: ip_version''),
       [GET ''floating-ips/198.51.100.9''])"
    unfolding main_eq [of demo_env ?p ?i, OF e, unfolded ip, OF fst_conv] 1 by simp
  have 4: "main demo_env ?q False =
      (Inl (FailJson ''Missing required parameter to update a floating IP: server.''),
       [GET ''floating-ips/192.0.2.123''])"
    unfolding main_eq [of demo_env ?q demo_info, OF e, unfolded init_demo, OF fst_conv] 2 by simp
  from 1 2 3 4 show ?thesis by blast
qed

text \<open>
  The claim as stated, that the failure comes whenever the action is selected and before
  any network call, fails for the unknown address: the real run has sent its GET request
  when it fails, and the run in check mode does not fail at all.
\<close>

theorem missing_parameter_after_fetch_counterexample:
  "main demo_env (demo_params ''198.51.100.9'' Present None) False =
     (Inl (FailJson ''missing required arguments: ip_version''),
      [GET ''floating-ips/198.51.100.9'']) \<and>
   main demo_env (demo_params ''198.51.100.9'' Present None) True =
     (Inr \<lparr>changed = True,
           result = unknown_info ''198.51.100.9''\<rparr>,
      [GET ''floating-ips/198.51.100.9''])"
proof -
  let ?p = "demo_params ''198.51.100.9'' Present None"
  let ?i = "unknown_info ''198.51.100.9''"
  have i: "init demo_env ?p = (Inr ?i, [GET ''floating-ips/198.51.100.9''])"
    by (simp add: init_def update_info_def truthy_def demo_params_def demo_env_def
        unknown_info_def)
  have r: "reconcile demo_env ?p False ?i =
      (Inl (FailJson ''missing required arguments: ip_version''), [])"
    by (simp add: param_defs method_defs main_defs demo_defs)
  have c: "reconcile demo_env ?p True ?i = (Inr \<lparr>changed = True, result = ?i\<rparr>, [])"
    by (simp add: param_defs method_defs main_defs demo_defs)
  show ?thesis
    by (simp add: main_def i r c) (simp add: demo_env_def)
qed

subsection \<open>The update request\<close>

text \<open>
  Claim C5. Whenever a real run takes the update branch, every request it makes is a
  POST whose body has exactly the keys \<^verbatim>\<open>server\<close> and \<^verbatim>\<open>tags\<close>, hence none of
  \<^verbatim>\<open>ip_version\<close>, \<^verbatim>\<open>type\<close>, \<^verbatim>\<open>region\<close>, \<^verbatim>\<open>prefix_length\<close>; there is one such
  request when a server was given, and none otherwise.
\<close>

theorem update_payload_is_server_and_tags:
  assumes "info ''state'' = Some (JStr ''present'')" "state p = Present"
    "current_server info \<noteq> target_server p"
  shows "snd (reconcile e p False info) =
           (if truthy (server p)
            then [POST (''floating-ips/'' @ percent_s (ip p)) (update_data p)] else [])
         \<and> dom (update_data p) = {''server'', ''tags''}
         \<and> (\<forall>c \<in> set (snd (reconcile e p False info)).
               \<exists>path data. c = POST path data \<and> dom data = {''server'', ''tags''} \<and>
                 ''ip_version'' \<notin> dom data \<and> ''type'' \<notin> dom data \<and>
                 ''region'' \<notin> dom data \<and> ''prefix_length'' \<notin> dom data)"
proof -
  have d: "dom (update_data p) = {''server'', ''tags''}"
    by (auto simp: update_data_def)
  have s: "snd (reconcile e p False info) =
           (if truthy (server p)
            then [POST (''floating-ips/'' @ percent_s (ip p)) (update_data p)] else [])"
    using assms
    by (auto simp: reconcile_def then_exit_def update_floating_ip_def Let_def split: sum.splits)
  show ?thesis unfolding s using d by simp
qed

text \<open>The address routed to \<^verbatim>\<open>srv-1\<close> is moved to \<^verbatim>\<open>srv-2\<close>.\<close>

theorem update_payload_is_server_and_tags_witness:
  "snd (reconcile demo_env (demo_params ''192.0.2.123'' Present (Some ''srv-2'')) False demo_info) =
     [POST ''floating-ips/192.0.2.123''
        (update_data (demo_params ''192.0.2.123'' Present (Some ''srv-2'')))] \<and>
   dom (update_data (demo_params ''192.0.2.123'' Present (Some ''srv-2''))) = {''server'', ''tags''} \<and>
   update_data (demo_params ''192.0.2.123'' Present (Some ''srv-2'')) ''server'' =
     Some (JStr ''srv-2'') \<and>
   update_data (demo_params ''192.0.2.123'' Present (Some ''srv-2'')) ''ip_version'' = None"
proof -
  let ?p = "demo_params ''192.0.2.123'' Present (Some ''srv-2'')"
  have a: "demo_info ''state'' = Some (JStr ''present'')" "state ?p = Present"
    "current_server demo_info \<noteq> target_server ?p"
    by (simp_all add: param_defs demo_defs)
  have t: "truthy (server ?p)" "percent_s (ip ?p) = ''192.0.2.123''"
    by (simp_all add: param_defs demo_defs)
  from update_payload_is_server_and_tags [OF a, of demo_env] t
  have "snd (reconcile demo_env ?p False demo_info) =
          [POST ''floating-ips/192.0.2.123'' (update_data ?p)]"
    "dom (update_data ?p) = {''server'', ''tags''}"
    by simp_all
  moreover have "update_data ?p ''server'' = Some (JStr ''srv-2'')"
    "update_data ?p ''ip_version'' = None"
    by (simp_all add: update_data_def param_defs demo_defs)
  ultimately show ?thesis by blast
qed

subsection \<open>Release\<close>

text \<open>
  Claim C6, as the code has it. When a real run releases a present floating IP and the
  service accepts the request, the run makes one DELETE request, addressed by the
  \<^verbatim>\<open>ip\<close> parameter (the address under which \<^verbatim>\<open>__init__\<close> has fetched the current
  record), and reports \<^verbatim>\<open>changed = True\<close> with a record of exactly two fields, built
  from the current record and from nothing the service has answered: \<^verbatim>\<open>ip\<close>, the
  identifier of the current record, and \<^verbatim>\<open>state\<close>, absent.
\<close>

theorem release_reports_absent_record:
  assumes "info ''state'' = Some (JStr ''present'')" "state p = Absent"
    "api_delete e (''floating-ips/'' @ percent_s (ip p)) = Inr u" "info ''ip'' = Some a"
  shows "reconcile e p False info =
           (Inr \<lparr>changed = True, result = [''ip'' \<mapsto> a, ''state'' \<mapsto> JStr ''absent'']\<rparr>,
            [DELETE (''floating-ips/'' @ percent_s (ip p))])
         \<and> (has_ipaddress e \<and> fst (init e p) = Inr info \<longrightarrow>
              snd (main e p False) =
                [GET (''floating-ips/'' @ percent_s (ip p)),
                 DELETE (''floating-ips/'' @ percent_s (ip p))])"
proof -
  have r: "reconcile e p False info =
           (Inr \<lparr>changed = True, result = [''ip'' \<mapsto> a, ''state'' \<mapsto> JStr ''absent'']\<rparr>,
            [DELETE (''floating-ips/'' @ percent_s (ip p))])"
    using assms
    by (simp add: reconcile_def then_exit_def release_floating_ip_def exit_json_def)
  show ?thesis
    using r init_present [of e p info] assms(1) by (auto simp: main_eq percent_s_def)
qed

text \<open>The address routed to \<^verbatim>\<open>srv-1\<close> is released.\<close>

theorem release_reports_absent_record_witness:
  "reconcile demo_env (demo_params ''192.0.2.123'' Absent None) False demo_info =
     (Inr \<lparr>changed = True,
           result = [''ip'' \<mapsto> JStr ''192.0.2.123'', ''state'' \<mapsto> JStr ''absent'']\<rparr>,
      [DELETE ''floating-ips/192.0.2.123'']) \<and>
   snd (main demo_env (demo_params ''192.0.2.123'' Absent None) False) =
     [GET ''floating-ips/192.0.2.123'', DELETE ''floating-ips/192.0.2.123'']"
proof -
  let ?p = "demo_params ''192.0.2.123'' Absent None"
  have a: "demo_info ''state'' = Some (JStr ''present'')" "state ?p = Absent"
    "api_delete demo_env (''floating-ips/'' @ percent_s (ip ?p)) = Inr ()"
    "demo_info ''ip'' = Some (JStr ''192.0.2.123'')"
    by (simp_all add: param_defs demo_defs)
  have e: "has_ipaddress demo_env" "fst (init demo_env ?p) = Inr demo_info"
    by (simp_all add: init_demo) (simp add: demo_env_def)
  have t: "percent_s (ip ?p) = ''192.0.2.123''"
    by (simp add: param_defs demo_defs)
  from release_reports_absent_record [where info = demo_info and p = ?p and e = demo_env, OF a] e show ?thesis
    unfolding t by simp
qed

text \<open>
  The claim as stated, that the delete request is keyed by the identifier of the current
  record, fails where the two spellings differ: asked for \<^verbatim>\<open>2001:0db8::\<close>, the service
  finds the network \<^verbatim>\<open>2001:db8::/56\<close>, whose record has the identifier \<^verbatim>\<open>2001:db8::\<close>;
  the delete request goes to \<^verbatim>\<open>floating-ips/2001:0db8::\<close>, the parameter, and the
  reported record carries \<^verbatim>\<open>2001:db8::\<close>.
\<close>

theorem release_key_is_the_ip_parameter_counterexample:
  "init demo_env (demo_params ''2001:0db8::'' Absent None) =
     (Inr range_info, [GET ''floating-ips/2001:0db8::'']) \<and>
   range_info ''ip'' = Some (JStr ''2001:db8::'') \<and>
   snd (reconcile demo_env (demo_params ''2001:0db8::'' Absent None) False range_info) =
     [DELETE ''floating-ips/2001:0db8::''] \<and>
   snd (reconcile demo_env (demo_params ''2001:0db8::'' Absent None) False range_info) \<noteq>
     [DELETE (''floating-ips/'' @ ''2001:db8::'')] \<and>
   snd (main demo_env (demo_params ''2001:0db8::'' Absent None) False) =
     [GET ''floating-ips/2001:0db8::'', DELETE ''floating-ips/2001:0db8::''] \<and>
   reported (main demo_env (demo_params ''2001:0db8::'' Absent None) False) ''ip'' =
     Some (JStr ''2001:db8::'')"
proof -
  let ?p = "demo_params ''2001:0db8::'' Absent None"
  have r: "reconcile demo_env ?p False range_info =
      (Inr \<lparr>changed = True,
            result = [''ip'' \<mapsto> JStr ''2001:db8::'', ''state'' \<mapsto> JStr ''absent'']\<rparr>,
       [DELETE ''floating-ips/2001:0db8::''])"
    by (simp add: param_defs method_defs main_defs demo_defs)
  have m: "main demo_env ?p False =
      (fst (reconcile demo_env ?p False range_info),
       [GET ''floating-ips/2001:0db8::''] @ snd (reconcile demo_env ?p False range_info))"
    by (simp add: main_def init_range) (simp add: demo_env_def)
  have i: "range_info ''ip'' = Some (JStr ''2001:db8::'')"
    by (simp add: demo_defs)
  show ?thesis
    unfolding m r by (simp add: init_range i reported_def)
qed

subsection \<open>The resource mapper\<close>

text \<open>
  Claim C7, as the code has it. \<^verbatim>\<open>_resp2info\<close> produces a record exactly for a resource
  whose \<^verbatim>\<open>network\<close> field is accepted by \<^verbatim>\<open>ip_network\<close> and whose \<^verbatim>\<open>server\<close> field is
  \<^verbatim>\<open>None\<close> or a reference with a \<^verbatim>\<open>uuid\<close>. The record is the resource with \<^verbatim>\<open>state\<close>
  set to present, \<^verbatim>\<open>ip\<close> set to the network address that \<^verbatim>\<open>ip_network\<close> prints, and
  the server reference replaced by its \<^verbatim>\<open>uuid\<close>, a \<^verbatim>\<open>None\<close> staying \<^verbatim>\<open>None\<close>. For an
  IPv4 network in CIDR notation, of any address and prefix length with no bit set behind
  the prefix, the identifier is the text of the address before the slash.
\<close>

theorem resp2info_maps_resource:
  "(\<forall>n a. r ''network'' = Some n \<and> py_ip_network n = Some a \<and> r ''server'' = Some JNull \<longrightarrow>
      resp2info py_ip_network (Some r) =
        Inr (r(''state'' \<mapsto> JStr ''present'', ''ip'' \<mapsto> JStr a)))
   \<and> (\<forall>n a kv u. r ''network'' = Some n \<and> py_ip_network n = Some a \<and>
        r ''server'' = Some (JObj kv) \<and> map_of kv ''uuid'' = Some u \<longrightarrow>
      resp2info py_ip_network (Some r) =
        Inr (r(''state'' \<mapsto> JStr ''present'', ''ip'' \<mapsto> JStr a, ''server'' \<mapsto> u)))
   \<and> (\<forall>info. resp2info py_ip_network (Some r) = Inr info \<longrightarrow>
        (\<exists>n a. r ''network'' = Some n \<and> py_ip_network n = Some a \<and>
           info ''state'' = Some (JStr ''present'') \<and> info ''ip'' = Some (JStr a) \<and>
           (r ''server'' = Some JNull \<and> info ''server'' = Some JNull \<or>
            (\<exists>kv u. r ''server'' = Some (JObj kv) \<and> map_of kv ''uuid'' = Some u \<and>
                     info ''server'' = Some u))))
   \<and> (\<forall>x l info. x < 2 ^ 32 \<and> l \<le> 32 \<and> 2 ^ (32 - l) dvd x \<and>
        r ''network'' = Some (JStr (v4_string_from_ip_int x @ ''/'' @ str_byte l)) \<and>
        resp2info py_ip_network (Some r) = Inr info \<longrightarrow>
        info ''ip'' = Some (JStr (v4_string_from_ip_int x)))"
proof -
  have 1: "resp2info py_ip_network (Some r) =
        Inr (r(''state'' \<mapsto> JStr ''present'', ''ip'' \<mapsto> JStr a))"
    if "r ''network'' = Some n" "py_ip_network n = Some a" "r ''server'' = Some JNull" for n a
    using that by (simp add: resp2info_def)
  have 2: "resp2info py_ip_network (Some r) =
        Inr (r(''state'' \<mapsto> JStr ''present'', ''ip'' \<mapsto> JStr a, ''server'' \<mapsto> u))"
    if "r ''network'' = Some n" "py_ip_network n = Some a" "r ''server'' = Some (JObj kv)"
      "map_of kv ''uuid'' = Some u" for n a kv u
    using that by (simp add: resp2info_def)
  have 3: "\<exists>n a. r ''network'' = Some n \<and> py_ip_network n = Some a \<and>
           info ''state'' = Some (JStr ''present'') \<and> info ''ip'' = Some (JStr a) \<and>
           (r ''server'' = Some JNull \<and> info ''server'' = Some JNull \<or>
            (\<exists>kv u. r ''server'' = Some (JObj kv) \<and> map_of kv ''uuid'' = Some u \<and>
                     info ''server'' = Some u))"
    if "resp2info py_ip_network (Some r) = Inr info" for info
    using that by (auto simp: resp2info_def Let_def split: option.splits json.splits)
  have 4: "info ''ip'' = Some (JStr (v4_string_from_ip_int x))"
    if "x < 2 ^ 32" "l \<le> 32" "2 ^ (32 - l) dvd x"
      "r ''network'' = Some (JStr (v4_string_from_ip_int x @ ''/'' @ str_byte l))"
      "resp2info py_ip_network (Some r) = Inr info" for x l info
  proof -
    from 3 [OF that(5)] that(4) obtain a where
      a: "py_ip_network (JStr (v4_string_from_ip_int x @ ''/'' @ str_byte l)) = Some a"
        "info ''ip'' = Some (JStr a)"
      by auto
    from a(1) that(3) have "a = v4_string_from_ip_int x"
      by (simp only: py_ip_network_v4_cidr [OF that(1,2)] if_True option.inject)
    with a(2) show ?thesis by simp
  qed
  from 1 2 3 4 show ?thesis by blast
qed

text \<open>
  \<^verbatim>\<open>192.0.2.123/32\<close> with a server reference maps to the identifier \<^verbatim>\<open>192.0.2.123\<close>
  and the bare server \<^verbatim>\<open>srv-1\<close>; \<^verbatim>\<open>2001:db8::/56\<close> without a server maps to
  \<^verbatim>\<open>2001:db8::\<close> and no server.
\<close>

theorem resp2info_maps_resource_witness:
  "resp2info py_ip_network (Some (resource ''192.0.2.123/32'' (server_ref ''srv-1''))) =
     Inr demo_info \<and>
   demo_info ''state'' = Some (JStr ''present'') \<and>
   demo_info ''ip'' = Some (JStr ''192.0.2.123'') \<and>
   demo_info ''server'' = Some (JStr ''srv-1'') \<and>
   resp2info py_ip_network (Some (resource ''2001:db8::/56'' JNull)) = Inr range_info \<and>
   range_info ''ip'' = Some (JStr ''2001:db8::'') \<and>
   range_info ''server'' = Some JNull \<and>
   v4_string_from_ip_int 3221226107 @ ''/'' @ str_byte 32 = ''192.0.2.123/32'' \<and>
   v4_string_from_ip_int 3221226107 = ''192.0.2.123''"
proof -
  let ?r = "resource ''192.0.2.123/32'' (server_ref ''srv-1'')"
  let ?kv = "[(''href'', JStr (''https://api.cloudscale.ch/v1/servers/'' @ ''srv-1'')),
              (''uuid'', JStr ''srv-1'')]"
  let ?s = "resource ''2001:db8::/56'' JNull"
  have r: "?r ''network'' = Some (JStr ''192.0.2.123/32'') \<and>
      py_ip_network (JStr ''192.0.2.123/32'') = Some ''192.0.2.123'' \<and>
      ?r ''server'' = Some (JObj ?kv) \<and> map_of ?kv ''uuid'' = Some (JStr ''srv-1'')"
    by (simp add: demo_defs)
  have s: "?s ''network'' = Some (JStr ''2001:db8::/56'') \<and>
      py_ip_network (JStr ''2001:db8::/56'') = Some ''2001:db8::'' \<and> ?s ''server'' = Some JNull"
    by (simp add: demo_defs)
  have t: "v4_string_from_ip_int 3221226107 @ ''/'' @ str_byte 32 = ''192.0.2.123/32''"
    "v4_string_from_ip_int 3221226107 = ''192.0.2.123''"
    by (simp_all add: v4_string_from_ip_int_def str_join_def str_byte_def digit_char_def)
  have x: "(3221226107::nat) < 2 ^ 32 \<and> (32::nat) \<le> 32 \<and> 2 ^ (32 - 32) dvd (3221226107::nat)"
    by simp
  from resp2info_maps_resource [where r = ?r] r
  have 1: "resp2info py_ip_network (Some ?r) = Inr demo_info"
    unfolding demo_info_def by blast
  from resp2info_maps_resource [where r = ?s] s
  have 2: "resp2info py_ip_network (Some ?s) = Inr range_info"
    unfolding range_info_def by blast
  have n: "?r ''network'' =
      Some (JStr (v4_string_from_ip_int 3221226107 @ ''/'' @ str_byte 32))"
    unfolding t(1) by (simp add: demo_defs)
  from resp2info_maps_resource [where r = ?r] x n 1
  have 3: "demo_info ''ip'' = Some (JStr (v4_string_from_ip_int 3221226107))"
    by blast
  have 4: "demo_info ''state'' = Some (JStr ''present'')"
    "demo_info ''server'' = Some (JStr ''srv-1'')"
    "range_info ''ip'' = Some (JStr ''2001:db8::'')"
    "range_info ''server'' = Some JNull"
    by (simp_all add: demo_defs)
  from 1 2 3 4 t show ?thesis by simp
qed

text \<open>
  The claim as stated, for every non-empty raw resource, fails for a resource that lacks
  the \<^verbatim>\<open>server\<close> field, for one whose server is a text instead of a reference, and for
  one that lacks the \<^verbatim>\<open>network\<close> field: the mapper raises and produces no record.
\<close>

theorem resp2info_raises_on_incomplete_resource_counterexample:
  "network_only ''192.0.2.123/32'' ''network'' = Some (JStr ''192.0.2.123/32'') \<and>
   resp2info py_ip_network (Some (network_only ''192.0.2.123/32'')) = Inl (KeyError ''server'') \<and>
   resp2info py_ip_network (Some (resource ''192.0.2.123/32'' (JStr ''srv-1''))) = Inl TypeError \<and>
   resp2info py_ip_network (Some server_only) = Inl (KeyError ''network'')"
  by (simp add: resp2info_def demo_defs)

subsection \<open>Identity preservation\<close>

text \<open>
  Claim C8, as the code has it. Let the current record be present and the desired state
  be present, and let the run complete. In check mode and when the servers are equal
  (no-op) the run reports the current record itself, so the identifier is preserved.
  On the update path the run reports the record made of the service's answer, and the
  identifier is the network address of that answer; it is the identifier of the current
  record whenever the service answers the update of a path with a resource of the
  network that it answers the fetch of that path with.
\<close>

theorem identifier_preserved:
  assumes "has_ipaddress e" "fst (init e p) = Inr info"
    "info ''state'' = Some (JStr ''present'')" "state p = Present"
    "main e p c = (Inr out, cs)"
  shows "(c \<or> current_server info = target_server p \<longrightarrow> result out = info)
       \<and> (\<not> c \<and> current_server info \<noteq> target_server p \<longrightarrow>
            (\<exists>r n a. api_post e (''floating-ips/'' @ percent_s (ip p)) (update_data p) =
                        Inr (Some r) \<and>
                      r ''network'' = Some n \<and> ip_network e n = Some a \<and>
                      result out ''ip'' = Some (JStr a)))
       \<and> ((\<forall>path data r r'. api_get e path = Inr (Some r) \<longrightarrow>
               api_post e path data = Inr (Some r') \<longrightarrow> r' ''network'' = r ''network'') \<longrightarrow>
            result out ''ip'' = info ''ip'')"
proof -
  from init_present [OF assms(2,3)] obtain a r where
    a: "ip p = Some a" "api_get e (''floating-ips/'' @ a) = Inr (Some r)"
       "resp2info (ip_network e) (Some r) = Inr info"
    by blast
  from resp2info_ip [OF a(3)] obtain n b where
    n: "r ''network'' = Some n" "ip_network e n = Some b" "info ''ip'' = Some (JStr b)"
    by auto
  from assms(1,2,5) have rc: "fst (reconcile e p c info) = Inr out"
    by (simp add: main_eq)
  have noop: "result out = info" if "c \<or> current_server info = target_server p"
    using that rc assms(3,4)
    by (auto simp: reconcile_def exit_json_def Let_def split: if_splits)
  have upd: "\<exists>r' n' b'. api_post e (''floating-ips/'' @ percent_s (ip p)) (update_data p) =
                 Inr (Some r') \<and>
               r' ''network'' = Some n' \<and> ip_network e n' = Some b' \<and>
               result out ''ip'' = Some (JStr b')"
    if "\<not> c \<and> current_server info \<noteq> target_server p"
  proof -
    from that rc assms(3,4) have "fst (then_exit (update_floating_ip e p)) = Inr out"
      by (simp add: reconcile_def)
    then obtain rec where rec: "fst (update_floating_ip e p) = Inr rec" "result out = rec"
      by (cases "then_exit (update_floating_ip e p)") (auto simp: then_exit_Inr)
    from rec(1) obtain resp where
      resp: "api_post e (''floating-ips/'' @ percent_s (ip p)) (update_data p) = Inr resp"
        "resp2info (ip_network e) resp = Inr rec"
      by (auto simp: update_floating_ip_def Let_def split: if_splits sum.splits)
    from resp2info_ip [OF resp(2)] resp(1) rec(2) show ?thesis
      by auto
  qed
  have same: "result out ''ip'' = info ''ip''"
    if s: "\<forall>path data r r'. api_get e path = Inr (Some r) \<longrightarrow>
             api_post e path data = Inr (Some r') \<longrightarrow> r' ''network'' = r ''network''"
  proof (cases "c \<or> current_server info = target_server p")
    case True
    then show ?thesis by (simp add: noop)
  next
    case False
    with upd obtain r' n' b' where
      u: "api_post e (''floating-ips/'' @ percent_s (ip p)) (update_data p) = Inr (Some r')"
         "r' ''network'' = Some n'" "ip_network e n' = Some b'"
         "result out ''ip'' = Some (JStr b')"
      by blast
    from u(1) a(1) have "api_post e (''floating-ips/'' @ a) (update_data p) = Inr (Some r')"
      by (simp add: percent_s_def)
    with s a(2) have "r' ''network'' = r ''network''"
      by blast
    with u n show ?thesis by simp
  qed
  from noop upd same show ?thesis by blast
qed

text \<open>
  The address routed to \<^verbatim>\<open>srv-1\<close> is moved to \<^verbatim>\<open>srv-2\<close> and keeps its identifier;
  desired for \<^verbatim>\<open>srv-1\<close>, it is reported as it was fetched.
\<close>

theorem identifier_preserved_witness:
  "reported_changed (main demo_env (demo_params ''192.0.2.123'' Present (Some ''srv-2'')) False) =
     Some True \<and>
   reported (main demo_env (demo_params ''192.0.2.123'' Present (Some ''srv-2'')) False) ''server'' =
     Some (JStr ''srv-2'') \<and>
   reported (main demo_env (demo_params ''192.0.2.123'' Present (Some ''srv-2'')) False) ''ip'' =
     demo_info ''ip'' \<and>
   demo_info ''ip'' = Some (JStr ''192.0.2.123'') \<and>
   main demo_env (demo_params ''192.0.2.123'' Present (Some ''srv-1'')) False =
     (Inr \<lparr>changed = False, result = demo_info\<rparr>, [GET ''floating-ips/192.0.2.123''])"
proof -
  let ?p = "demo_params ''192.0.2.123'' Present (Some ''srv-2'')"
  let ?q = "demo_params ''192.0.2.123'' Present (Some ''srv-1'')"
  have e: "has_ipaddress demo_env"
    by (simp add: demo_env_def)
  have i: "fst (init demo_env ?p) = Inr demo_info" "fst (init demo_env ?q) = Inr demo_info"
    by (simp_all add: init_demo)
  have st: "demo_info ''state'' = Some (JStr ''present'')" "state ?p = Present"
    "state ?q = Present"
    by (simp_all add: demo_defs)
  have rc: "reconcile demo_env ?p False demo_info =
      (Inr \<lparr>changed = True, result = moved_info\<rparr>,
       [POST ''floating-ips/192.0.2.123'' (update_data ?p)])"
    by (simp add: param_defs method_defs main_defs demo_defs)
  obtain out cs where m: "main demo_env ?p False = (Inr out, cs)"
    and o: "changed out = True" "result out ''server'' = Some (JStr ''srv-2'')"
    unfolding main_eq [of demo_env ?p demo_info, OF e i(1)] rc by (simp add: moved_info_def)
  have same: "\<forall>path data r r'. api_get demo_env path = Inr (Some r) \<longrightarrow>
      api_post demo_env path data = Inr (Some r') \<longrightarrow> r' ''network'' = r ''network''"
    by (auto simp: demo_env_def routed_def resource_def split: if_splits option.splits json.splits)
  from identifier_preserved
         [where e = demo_env and p = ?p and info = demo_info and c = False and cs = cs,
          OF e i(1) st(1,2) m] same
  have 1: "result out ''ip'' = demo_info ''ip''"
    by blast
  have rq: "reconcile demo_env ?q False demo_info =
      (Inr \<lparr>changed = False, result = demo_info\<rparr>, [])"
    by (simp add: param_defs method_defs main_defs demo_defs)
  have mq: "main demo_env ?q False =
      (Inr \<lparr>changed = False, result = demo_info\<rparr>, [GET ''floating-ips/192.0.2.123''])"
    unfolding main_eq [of demo_env ?q demo_info, OF e i(2)] rq by (simp add: init_demo)
  have sq: "current_server demo_info = target_server ?q"
    by (simp add: param_defs demo_defs)
  from identifier_preserved
         [where e = demo_env and p = ?q and info = demo_info and c = False,
          OF e i(2) st(1,3) mq] sq
  have 2: "result \<lparr>changed = False, result = demo_info\<rparr> = demo_info"
    by blast
  from m o 1 mq show ?thesis
    by (simp add: reported_def reported_changed_def demo_info_def)
qed

text \<open>
  The claim as stated fails on the update path for a service that answers the update
  with the resource of another network: the current record has the identifier
  \<^verbatim>\<open>192.0.2.123\<close>, the reported record \<^verbatim>\<open>198.51.100.7\<close>.
\<close>

theorem update_answer_decides_identifier_counterexample:
  "fst (init (answering (resource ''198.51.100.7/32'' (server_ref ''srv-2'')) demo_env)
          (demo_params ''192.0.2.123'' Present (Some ''srv-2''))) = Inr demo_info \<and>
   demo_info ''ip'' = Some (JStr ''192.0.2.123'') \<and>
   reported_changed
     (main (answering (resource ''198.51.100.7/32'' (server_ref ''srv-2'')) demo_env)
        (demo_params ''192.0.2.123'' Present (Some ''srv-2'')) False) = Some True \<and>
   reported
     (main (answering (resource ''198.51.100.7/32'' (server_ref ''srv-2'')) demo_env)
        (demo_params ''192.0.2.123'' Present (Some ''srv-2'')) False) ''ip'' =
     Some (JStr ''198.51.100.7'')"
proof -
  let ?e = "answering (resource ''198.51.100.7/32'' (server_ref ''srv-2'')) demo_env"
  let ?p = "demo_params ''192.0.2.123'' Present (Some ''srv-2'')"
  have i: "init ?e ?p = (Inr demo_info, [GET ''floating-ips/192.0.2.123''])"
    by (simp add: init_def update_info_def truthy_def demo_params_def demo_env_def answering_def
        demo_info_def resp2info_def resource_def server_ref_def network_values)
  have rc: "reconcile ?e ?p False demo_info =
      (Inr \<lparr>changed = True, result = created_info ''srv-2''\<rparr>,
       [POST ''floating-ips/192.0.2.123'' (update_data ?p)])"
    by (simp add: param_defs method_defs main_defs demo_defs)
  have m: "main ?e ?p False =
      (Inr \<lparr>changed = True, result = created_info ''srv-2''\<rparr>,
       [GET ''floating-ips/192.0.2.123'', POST ''floating-ips/192.0.2.123'' (update_data ?p)])"
    by (simp add: main_def i rc) (simp add: answering_def demo_env_def)
  show ?thesis
    unfolding m by (simp add: i reported_def reported_changed_def demo_info_def created_info_def)
qed

subsection \<open>Malformed resources\<close>




subsection \<open>Update without a server\<close>

text \<open>
  Claim C10. Let the current record be present with a server, the desired state be
  present and no \<^verbatim>\<open>server\<close> be given. A real run takes the update branch and fails
  through \<^verbatim>\<open>fail_json\<close> for the missing server, with no request besides the fetch
  of \<^verbatim>\<open>__init__\<close>. Check mode makes no request either and leaves through
  \<^verbatim>\<open>exit_json\<close> with \<^verbatim>\<open>changed = True\<close> and the current record; that call succeeds for
  every record without a field named \<^verbatim>\<open>changed\<close>.
\<close>

theorem update_without_server_fails_but_check_mode_reports_change:
  assumes "info ''state'' = Some (JStr ''present'')" "current_server info \<noteq> JNull"
    "state p = Present" "server p = None"
  shows "reconcile e p False info = perform e p info Update
       \<and> reconcile e p False info =
           (Inl (FailJson ''Missing required parameter to update a floating IP: server.''), [])
       \<and> reconcile e p True info = (exit_json True info, [])
       \<and> (info ''changed'' = None \<longrightarrow>
            reconcile e p True info = (Inr \<lparr>changed = True, result = info\<rparr>, []))
       \<and> (has_ipaddress e \<and> fst (init e p) = Inr info \<longrightarrow>
            fst (main e p False) =
              Inl (FailJson ''Missing required parameter to update a floating IP: server.'') \<and>
            (\<forall>c \<in> set (snd (main e p False)). \<exists>path. c = GET path) \<and>
            main e p True = (exit_json True info, snd (init e p)))"
proof -
  have r: "reconcile e p False info = perform e p info Update"
    "reconcile e p False info =
       (Inl (FailJson ''Missing required parameter to update a floating IP: server.''), [])"
    "reconcile e p True info = (exit_json True info, [])"
    using assms
    by (simp_all add: reconcile_def perform_def then_exit_def update_floating_ip_def truthy_def
        target_server_def jstr_def)
  have x: "info ''changed'' = None \<longrightarrow>
      reconcile e p True info = (Inr \<lparr>changed = True, result = info\<rparr>, [])"
    unfolding r(3) by (simp add: exit_json_def)
  have m: "has_ipaddress e \<and> fst (init e p) = Inr info \<longrightarrow>
            fst (main e p False) =
              Inl (FailJson ''Missing required parameter to update a floating IP: server.'') \<and>
            (\<forall>c \<in> set (snd (main e p False)). \<exists>path. c = GET path) \<and>
            main e p True = (exit_json True info, snd (init e p))"
    using r(2,3) init_calls [of _ e p] by (auto simp: main_eq)
  from r x m show ?thesis by blast
qed

text \<open>The address routed to \<^verbatim>\<open>srv-1\<close>, desired present without a server.\<close>

theorem update_without_server_fails_but_check_mode_reports_change_witness:
  "reconcile demo_env (demo_params ''192.0.2.123'' Present None) False demo_info =
     (Inl (FailJson ''Missing required parameter to update a floating IP: server.''), []) \<and>
   reconcile demo_env (demo_params ''192.0.2.123'' Present None) True demo_info =
     (Inr \<lparr>changed = True, result = demo_info\<rparr>, []) \<and>
   main demo_env (demo_params ''192.0.2.123'' Present None) True =
     (Inr \<lparr>changed = True, result = demo_info\<rparr>, [GET ''floating-ips/192.0.2.123''])"
proof -
  let ?p = "demo_params ''192.0.2.123'' Present None"
  have a: "demo_info ''state'' = Some (JStr ''present'')" "current_server demo_info \<noteq> JNull"
    "state ?p = Present" "server ?p = None"
    by (simp_all add: param_defs demo_defs)
  have c: "demo_info ''changed'' = None"
    by (simp add: demo_defs)
  have e: "has_ipaddress demo_env" "fst (init demo_env ?p) = Inr demo_info"
    "snd (init demo_env ?p) = [GET ''floating-ips/192.0.2.123'']"
    by (simp_all add: init_demo) (simp add: demo_env_def)
  have x: "exit_json True demo_info = Inr \<lparr>changed = True, result = demo_info\<rparr>"
    using c by (simp add: exit_json_def)
  note t = update_without_server_fails_but_check_mode_reports_change
             [where info = demo_info and p = ?p and e = demo_env, OF a]
  from t c have 1: "reconcile demo_env ?p False demo_info =
      (Inl (FailJson ''Missing required parameter to update a floating IP: server.''), [])"
    and 2: "reconcile demo_env ?p True demo_info = (Inr \<lparr>changed = True, result = demo_info\<rparr>, [])"
    by blast+
  from t e(1,2) have "main demo_env ?p True = (exit_json True demo_info, snd (init demo_env ?p))"
    by blast
  with x e(3) have 3: "main demo_env ?p True =
      (Inr \<lparr>changed = True, result = demo_info\<rparr>, [GET ''floating-ips/192.0.2.123''])"
    by simp
  from 1 2 3 show ?thesis by blast
qed

end
